theory Spec2Isabelle
  imports Complex_Main "HOL-Library.Sublist" "HOL-Library.AList"
begin

section \<open>Python strings\<close>

text \<open>
  A Python \<open>str\<close> is modelled as a \<open>string\<close>, its text in UTF-8: an ASCII character is
  one \<open>char\<close>, any other code point is the bytes of its encoding. Every literal the
  program searches for is ASCII, and containment of an ASCII text is the same on bytes
  and on code points. \<open>lower\<close> folds the ASCII capitals, \<open>is_space\<close> holds the ASCII
  white space of \<open>str.isspace\<close> and \<open>is_digit\<close> the ASCII digits; the case folding, the
  white space and the digits of code points beyond ASCII are left out.
\<close>

definition is_space :: "char \<Rightarrow> bool" where
  "is_space c = (c \<in> set [CHR 0x09, CHR 0x0A, CHR 0x0B, CHR 0x0C, CHR 0x0D,
                           CHR 0x1C, CHR 0x1D, CHR 0x1E, CHR 0x1F, CHR 0x20])"

definition is_digit :: "char \<Rightarrow> bool" where
  "is_digit c = (c \<in> set ''0123456789'')"

definition lower_char :: "char \<Rightarrow> char" where
  "lower_char c =
     (let n = (of_char c :: nat) in if 65 \<le> n \<and> n \<le> 90 then char_of (n + 32) else c)"

definition lower :: "string \<Rightarrow> string" where
  "lower s = map lower_char s"

definition strip :: "string \<Rightarrow> string" where
  "strip s = rev (dropWhile is_space (rev (dropWhile is_space s)))"

text \<open>\<open>sub in s\<close> of Python is \<^term>\<open>sublist sub s\<close>: a contiguous occurrence.\<close>

fun split_on :: "char \<Rightarrow> string \<Rightarrow> string list" where
  "split_on c [] = [[]]"
| "split_on c (x # xs) =
     (if x = c then [] # split_on c xs
      else (case split_on c xs of w # ws \<Rightarrow> (x # w) # ws | [] \<Rightarrow> [[x]]))"

text \<open>
  \<open>re.search\<close> with an alternation of literal phrases, as in
  \<open>(most expensive|highest price|most costly)\<close>, finds a match exactly when one of the
  phrases occurs in the text.
\<close>

definition re_search_alt :: "string list \<Rightarrow> string \<Rightarrow> bool" where
  "re_search_alt phrases s = list_ex (\<lambda>p. sublist p s) phrases"

section \<open>Location resolver: \<open>extract_location_from_query\<close>\<close>

text \<open>
  \<open>location_map = {loc.lower(): loc for loc in available_locations}\<close>. A Python dict keeps
  the position of the first insertion of a key and the value of the last one, which is
  what \<^const>\<open>AList.update\<close> does on an association list.
\<close>

definition location_map :: "string list \<Rightarrow> (string \<times> string) list" where
  "location_map available_locations =
     foldl (\<lambda>m loc. AList.update (lower loc) loc m) [] available_locations"

text \<open>First loop: a location whose lowercased full text occurs in the query.\<close>

fun direct_match :: "string \<Rightarrow> (string \<times> string) list \<Rightarrow> string option" where
  "direct_match query [] = None"
| "direct_match query ((loc_lower, loc_standard) # rest) =
     (if sublist loc_lower query then Some loc_standard else direct_match query rest)"

definition city_part :: "string \<Rightarrow> string" where
  "city_part loc_lower = strip (hd (split_on CHR '','' loc_lower))"

text \<open>Second loop: a location whose text before its first comma occurs in the query.\<close>

fun partial_match :: "string \<Rightarrow> (string \<times> string) list \<Rightarrow> string option" where
  "partial_match query [] = None"
| "partial_match query ((loc_lower, loc_standard) # rest) =
     (if sublist (city_part loc_lower) query then Some loc_standard
      else partial_match query rest)"

definition city_aliases :: "(string \<times> string list) list" where
  "city_aliases =
     [(''pune'', [''pune'', ''puna'']),
      (''mumbai'', [''mumbai'', ''bombay'']),
      (''bangalore'', [''bangalore'', ''bengaluru'']),
      (''delhi'', [''delhi'', ''new delhi'', ''dilli''])]"

text \<open>Innermost loop of the alias stage: the first location that contains the alias.\<close>

fun alias_location :: "string \<Rightarrow> (string \<times> string) list \<Rightarrow> string option" where
  "alias_location alias [] = None"
| "alias_location alias ((loc_lower, loc_standard) # rest) =
     (if sublist alias loc_lower then Some loc_standard else alias_location alias rest)"

text \<open>
  The loop over one alias list. An alias that occurs in the query while no location
  contains it returns nothing, and the loop goes on to the next alias.
\<close>

fun alias_list_match ::
  "string \<Rightarrow> (string \<times> string) list \<Rightarrow> string list \<Rightarrow> string option" where
  "alias_list_match query lm [] = None"
| "alias_list_match query lm (alias # rest) =
     (if sublist alias query then
        (case alias_location alias lm of
           Some loc_standard \<Rightarrow> Some loc_standard
         | None \<Rightarrow> alias_list_match query lm rest)
      else alias_list_match query lm rest)"

fun alias_match ::
  "string \<Rightarrow> (string \<times> string) list \<Rightarrow> string list list \<Rightarrow> string option" where
  "alias_match query lm [] = None"
| "alias_match query lm (alias_list # rest) =
     (case alias_list_match query lm alias_list of
        Some loc_standard \<Rightarrow> Some loc_standard
      | None \<Rightarrow> alias_match query lm rest)"

definition extract_location_from_query :: "string \<Rightarrow> string list \<Rightarrow> string option" where
  "extract_location_from_query query0 available_locations =
     (let query = lower query0;
          lm = location_map available_locations
      in case direct_match query lm of
           Some loc_standard \<Rightarrow> Some loc_standard
         | None \<Rightarrow>
             (case partial_match query lm of
                Some loc_standard \<Rightarrow> Some loc_standard
              | None \<Rightarrow> alias_match query lm (map snd city_aliases)))"

text \<open>
  \<open>if location\<close>: \<open>None\<close> and the empty string are false, every other string is true.
\<close>

definition truthy_location :: "string option \<Rightarrow> bool" where
  "truthy_location location = (case location of None \<Rightarrow> False | Some s \<Rightarrow> s \<noteq> [])"

section \<open>Intent classifier: \<open>classify_user_query\<close>\<close>

definition greetings :: "string list" where
  "greetings =
     [''hi'', ''hello'', ''hey'', ''how are you'', ''good morning'', ''good evening'']"

definition price_desc_phrases :: "string list" where
  "price_desc_phrases = [''most expensive'', ''highest price'', ''most costly'']"

definition price_asc_phrases :: "string list" where
  "price_asc_phrases = [''cheapest'', ''lowest price'', ''most affordable'']"

definition area_desc_phrases :: "string list" where
  "area_desc_phrases = [''biggest'', ''largest'']"

definition area_asc_phrases :: "string list" where
  "area_asc_phrases = [''smallest'', ''tiniest'']"

definition filter_words :: "string list" where
  "filter_words =
     [''with'', ''in'', ''under'', ''above'', ''near'', ''bhk'', ''bedroom'', ''budget'']"

definition classify_user_query :: "string \<Rightarrow> string list \<Rightarrow> string" where
  "classify_user_query query0 available_locations =
     (let query = strip (lower query0) in
      if list_ex (\<lambda>greet. sublist greet query) greetings then ''greeting''
      else
        let location = extract_location_from_query query available_locations in
        if re_search_alt price_desc_phrases query then
          (if truthy_location location then ''sort_by_price_desc_location''
           else ''sort_by_price_desc'')
        else if re_search_alt price_asc_phrases query then
          (if truthy_location location then ''sort_by_price_asc_location''
           else ''sort_by_price_asc'')
        else if re_search_alt area_desc_phrases query then
          (if truthy_location location then ''sort_by_area_desc_location''
           else ''sort_by_area_desc'')
        else if re_search_alt area_asc_phrases query then
          (if truthy_location location then ''sort_by_area_asc_location''
           else ''sort_by_area_asc'')
        else if list_ex (\<lambda>word. sublist word query) filter_words then ''filter_search''
        else ''semantic_search'')"

section \<open>Python values\<close>

text \<open>
  The values the program handles: store records, document metadata, query filters and
  the response are all dicts of such values. A dict is an association list read with
  \<^const>\<open>map_of\<close> and written with \<^const>\<open>AList.update\<close>, which keeps the insertion order
  as a Python dict does. A float is modelled by the rational number it stands for
  (infinities and NaN are left out).
\<close>

datatype pyval =
    PNone
  | PBool bool
  | PInt int
  | PFloat rat
  | PStr string
  | PList "pyval list"
  | PDict "(string \<times> pyval) list"

type_synonym pydict = "(string \<times> pyval) list"

datatype py_error = AttributeError | KeyError | TypeError | ValueError

text \<open>\<open>d.get(k, default)\<close>, \<open>d[k]\<close> and \<open>k in d\<close>.\<close>

definition py_get :: "pydict \<Rightarrow> string \<Rightarrow> pyval \<Rightarrow> pyval" where
  "py_get d k dflt = (case map_of d k of Some v \<Rightarrow> v | None \<Rightarrow> dflt)"

definition py_getitem :: "pydict \<Rightarrow> string \<Rightarrow> py_error + pyval" where
  "py_getitem d k = (case map_of d k of Some v \<Rightarrow> Inr v | None \<Rightarrow> Inl KeyError)"

definition has_key :: "pydict \<Rightarrow> string \<Rightarrow> bool" where
  "has_key d k = (map_of d k \<noteq> None)"

text \<open>Truth value of a value in a condition.\<close>

fun py_truthy :: "pyval \<Rightarrow> bool" where
  "py_truthy PNone = False"
| "py_truthy (PBool b) = b"
| "py_truthy (PInt i) = (i \<noteq> 0)"
| "py_truthy (PFloat r) = (r \<noteq> 0)"
| "py_truthy (PStr s) = (s \<noteq> [])"
| "py_truthy (PList vs) = (vs \<noteq> [])"
| "py_truthy (PDict kvs) = (kvs \<noteq> [])"

subsection \<open>Numbers\<close>

text \<open>
  \<open>int(text)\<close> on a run of decimal digits, which is all the program passes to it (the
  group of digits of a match). CPython converts at most \<open>max_str_digits\<close> digits, 4300
  by default, leading zeros counted, and raises \<open>ValueError\<close> on a longer run. Any text
  that is not a run of digits is reported as \<open>ValueError\<close> too.
\<close>

definition max_str_digits :: nat where
  "max_str_digits = 4300"

definition digit_val :: "char \<Rightarrow> int" where
  "digit_val c = int (of_char c) - 48"

definition digits_value :: "string \<Rightarrow> int" where
  "digits_value s = foldl (\<lambda>n c. 10 * n + digit_val c) 0 s"

definition py_int :: "string \<Rightarrow> py_error + int" where
  "py_int s =
     (if s \<noteq> [] \<and> list_all is_digit s then
        (if max_str_digits < length s then Inl ValueError else Inr (digits_value s))
      else Inl ValueError)"

text \<open>
  \<open>float(v)\<close>. A number converts; \<open>None\<close> and containers raise \<open>TypeError\<close>. Parsing a
  text as a number is not modelled and reported as \<open>ValueError\<close>.
\<close>

fun py_float :: "pyval \<Rightarrow> py_error + rat" where
  "py_float (PBool b) = Inr (if b then 1 else 0)"
| "py_float (PInt i) = Inr (of_int i)"
| "py_float (PFloat r) = Inr r"
| "py_float (PStr s) = Inl ValueError"
| "py_float v = Inl TypeError"

text \<open>
  \<open>round(x, ndigits)\<close> rounds the exact value of \<open>x\<close> to the nearest multiple of
  \<open>10 ^ - ndigits\<close>, a tie going to the even one.
\<close>

definition round_half_even :: "rat \<Rightarrow> int" where
  "round_half_even x =
     (let f = \<lfloor>x\<rfloor>; d = x - of_int f
      in if d < 1 / 2 then f
         else if 1 / 2 < d then f + 1
         else if even f then f else f + 1)"

definition py_round :: "rat \<Rightarrow> nat \<Rightarrow> rat" where
  "py_round x ndigits = of_int (round_half_even (x * 10 ^ ndigits)) / 10 ^ ndigits"

subsection \<open>Text of a value\<close>

fun nat_digits :: "nat \<Rightarrow> string" where
  "nat_digits n =
     (if n < 10 then [char_of (48 + n)]
      else nat_digits (n div 10) @ [char_of (48 + n mod 10)])"

declare nat_digits.simps [simp del]

definition int_str :: "int \<Rightarrow> string" where
  "int_str i = (if i < 0 then CHR ''-'' # nat_digits (nat (- i)) else nat_digits (nat i))"

text \<open>
  \<open>str(v)\<close>, which is what an f-string puts in place of \<open>{v}\<close>. The text of a float and
  of a container is not modelled: it is given by the parameter \<open>other\<close>.
\<close>

fun py_str :: "(pyval \<Rightarrow> string) \<Rightarrow> pyval \<Rightarrow> string" where
  "py_str other PNone = ''None''"
| "py_str other (PBool b) = (if b then ''True'' else ''False'')"
| "py_str other (PInt i) = int_str i"
| "py_str other (PStr s) = s"
| "py_str other v = other v"

text \<open>
  The format \<open>:.2f\<close>: two decimals of the value rounded as above. A text raises
  \<open>ValueError\<close>, \<open>None\<close> and containers raise \<open>TypeError\<close>.
\<close>

definition fixed2 :: "rat \<Rightarrow> string" where
  "fixed2 x =
     (let n = round_half_even (\<bar>x\<bar> * 100);
          whole = nat_digits (nat (n div 100));
          frac = [char_of (48 + nat (n mod 100 div 10)), char_of (48 + nat (n mod 10))]
      in (if x < 0 then ''-'' else '''') @ whole @ ''.'' @ frac)"

fun format_2f :: "pyval \<Rightarrow> py_error + string" where
  "format_2f (PBool b) = Inr (fixed2 (if b then 1 else 0))"
| "format_2f (PInt i) = Inr (fixed2 (of_int i))"
| "format_2f (PFloat r) = Inr (fixed2 r)"
| "format_2f (PStr s) = Inl ValueError"
| "format_2f v = Inl TypeError"

subsection \<open>Joining texts\<close>

fun join :: "string \<Rightarrow> string list \<Rightarrow> string" where
  "join sep [] = []"
| "join sep [x] = x"
| "join sep (x # y # ys) = x @ sep @ join sep (y # ys)"

text \<open>The items of an iterable handed to \<open>sep.join\<close>: each must be a text.\<close>

fun str_items :: "pyval list \<Rightarrow> py_error + string list" where
  "str_items [] = Inr []"
| "str_items (PStr s # vs) =
     (case str_items vs of Inl e \<Rightarrow> Inl e | Inr ss \<Rightarrow> Inr (s # ss))"
| "str_items (v # vs) = Inl TypeError"

fun py_join :: "string \<Rightarrow> pyval \<Rightarrow> py_error + string" where
  "py_join sep (PList vs) =
     (case str_items vs of Inl e \<Rightarrow> Inl e | Inr ss \<Rightarrow> Inr (join sep ss))"
| "py_join sep (PStr s) = Inr (join sep (map (\<lambda>c. [c]) s))"
| "py_join sep (PDict kvs) = Inr (join sep (map fst kvs))"
| "py_join sep v = Inl TypeError"

section \<open>Parameter extraction: \<open>filter_based_search\<close>\<close>

subsection \<open>The regular expressions\<close>

text \<open>
  \<open>re.search\<close> tries the pattern at each position of the text from the left, the end of
  the text included, and returns the first match. The pattern is given as a function
  that matches it at the start of a text and returns the group the program reads.
\<close>

fun re_search :: "(string \<Rightarrow> 'a option) \<Rightarrow> string \<Rightarrow> 'a option" where
  "re_search m [] = m []"
| "re_search m (c # cs) = (case m (c # cs) of Some g \<Rightarrow> Some g | None \<Rightarrow> re_search m cs)"

text \<open>
  The pattern \<open>(\d)\s?bhk\<close> at the start of a text: a digit, at most one white space and
  the letters \<open>bhk\<close>. The result is group 1, the digit.
\<close>

fun match_bhk :: "string \<Rightarrow> string option" where
  "match_bhk [] = None"
| "match_bhk (d # rest) =
     (if is_digit d \<and>
         (case rest of
            [] \<Rightarrow> False
          | w # rest' \<Rightarrow> (is_space w \<and> prefix ''bhk'' rest') \<or> prefix ''bhk'' rest)
      then Some [d] else None)"

text \<open>
  The tail \<open>\s?(\d+)\<close> of the price patterns: at most one white space, then the longest
  run of digits, which must not be empty. A white space that is there is always taken,
  since no digit run can start at it. The result is the digit run.
\<close>

definition match_amount :: "string \<Rightarrow> string option" where
  "match_amount s =
     (let r = (case s of [] \<Rightarrow> [] | c # cs \<Rightarrow> if is_space c then cs else s);
          ds = takeWhile is_digit r
      in if ds = [] then None else Some ds)"

text \<open>
  The pattern \<open>(kw1|kw2)\s?(\d+)\<close> at the start of a text: the alternatives are tried in
  their order, the next one when the tail fails after the current one. The result is
  group 2.
\<close>

fun match_keyword_amount :: "string list \<Rightarrow> string \<Rightarrow> string option" where
  "match_keyword_amount [] s = None"
| "match_keyword_amount (kw # kws) s =
     (if prefix kw s then
        (case match_amount (drop (length kw) s) of
           Some ds \<Rightarrow> Some ds
         | None \<Rightarrow> match_keyword_amount kws s)
      else match_keyword_amount kws s)"

text \<open>
  \<open>int(re.search(pattern, query).group(2))\<close>: when nothing matches, \<open>re.search\<close> returns
  \<open>None\<close> and reading \<open>.group\<close> of it raises \<open>AttributeError\<close>; when the digits are more
  than \<open>int\<close> converts, \<open>int\<close> raises \<open>ValueError\<close>.
\<close>

definition price_amount :: "string list \<Rightarrow> string \<Rightarrow> py_error + int" where
  "price_amount kws query =
     (case re_search (match_keyword_amount kws) query of
        None \<Rightarrow> Inl AttributeError
      | Some ds \<Rightarrow> py_int ds)"

subsection \<open>Building the filter\<close>

text \<open>
  \<open>filter_of_query\<close> is the body of \<open>filter_based_search\<close> up to its last line, the call
  of the store with the filter. An exception that leaves the body is the result
  \<open>Inl\<close>; the two \<open>try\<close> blocks with their bare \<open>except: pass\<close> keep the filter as it was
  when the block raises.
\<close>

definition bhk_step :: "string \<Rightarrow> pydict \<Rightarrow> py_error + pydict" where
  "bhk_step query flt =
     (case re_search match_bhk query of
        None \<Rightarrow> Inr flt
      | Some d \<Rightarrow>
          (case py_int d of
             Inl e \<Rightarrow> Inl e
           | Inr n \<Rightarrow> Inr (AList.update ''bedrooms'' (PInt n) flt)))"

definition location_step :: "string option \<Rightarrow> pydict \<Rightarrow> pydict" where
  "location_step location flt =
     (case location of
        None \<Rightarrow> flt
      | Some loc \<Rightarrow> if loc \<noteq> [] then AList.update ''location'' (PStr loc) flt else flt)"

definition price_step :: "string \<Rightarrow> pydict \<Rightarrow> pydict" where
  "price_step query flt =
     (if sublist ''under'' query \<or> sublist ''below'' query then
        (case price_amount [''under'', ''below''] query of
           Inr amount \<Rightarrow> AList.update ''price'' (PDict [(''$lte'', PInt amount)]) flt
         | Inl e \<Rightarrow> flt)
      else if sublist ''above'' query \<or> sublist ''over'' query then
        (case price_amount [''above'', ''over''] query of
           Inr amount \<Rightarrow> AList.update ''price'' (PDict [(''$gte'', PInt amount)]) flt
         | Inl e \<Rightarrow> flt)
      else flt)"

definition amenities_of_query :: "string \<Rightarrow> pyval list" where
  "amenities_of_query query =
     (if sublist ''pool'' query then [PStr ''Swimming Pool''] else []) @
     (if sublist ''gym'' query then [PStr ''Gym''] else []) @
     (if sublist ''parking'' query then [PStr ''Parking''] else [])"

definition amenities_step :: "string \<Rightarrow> pydict \<Rightarrow> pydict" where
  "amenities_step query flt =
     (let amenities = amenities_of_query query
      in if amenities \<noteq> [] then
           AList.update ''amenities'' (PDict [(''$all'', PList amenities)]) flt
         else flt)"

definition filter_of_query :: "string \<Rightarrow> string list \<Rightarrow> py_error + pydict" where
  "filter_of_query query0 available_locations =
     (let query = lower query0 in
      case bhk_step query [] of
        Inl e \<Rightarrow> Inl e
      | Inr f1 \<Rightarrow>
          (let location = extract_location_from_query query available_locations;
               f2 = location_step location f1;
               f3 = price_step query f2;
               f4 = amenities_step query f3
           in Inr f4))"

section \<open>Documents and the semantic search\<close>

text \<open>
  An exception that leaves a function is the result \<open>Inl\<close>; \<open>bind_err\<close> runs the rest of
  the function on a value and passes an exception on.
\<close>

definition bind_err :: "py_error + 'a \<Rightarrow> ('a \<Rightarrow> py_error + 'b) \<Rightarrow> py_error + 'b" where
  "bind_err r k = (case r of Inl e \<Rightarrow> Inl e | Inr v \<Rightarrow> k v)"

text \<open>
  The decorations of the program's texts, byte for byte as the source file has them.
\<close>

definition mark_rupee :: string where
  "mark_rupee = [CHR 0xE2, CHR 0x80, CHR 0x9A, CHR 0xC3, CHR 0x87, CHR 0xCF, CHR 0x80]"

definition mark_house :: string where
  "mark_house = [CHR 0xEF, CHR 0xA3, CHR 0xBF, CHR 0xC3, CHR 0xBC, CHR 0xC3, CHR 0xA8,
                 CHR 0xE2, CHR 0x80, CHR 0xA0]"

definition mark_wave :: string where
  "mark_wave = [CHR 0xEF, CHR 0xA3, CHR 0xBF, CHR 0xC3, CHR 0xBC, CHR 0xC3, CHR 0xAB,
                CHR 0xC3, CHR 0xA3]"

definition mark_pin :: string where
  "mark_pin = [CHR 0xEF, CHR 0xA3, CHR 0xBF, CHR 0xC3, CHR 0xBC, CHR 0xC3, CHR 0xAC,
               CHR 0xC3, CHR 0xA7]"

definition mark_ruler :: string where
  "mark_ruler = [CHR 0xEF, CHR 0xA3, CHR 0xBF, CHR 0xC3, CHR 0xBC, CHR 0xC3, CHR 0xAC,
                 CHR 0xC3, CHR 0xA8]"

definition mark_money :: string where
  "mark_money = [CHR 0xEF, CHR 0xA3, CHR 0xBF, CHR 0xC3, CHR 0xBC, CHR 0xC3, CHR 0xAD,
                 CHR 0xE2, CHR 0x88, CHR 0x9E]"

definition mark_bath :: string where
  "mark_bath = [CHR 0xEF, CHR 0xA3, CHR 0xBF, CHR 0xC3, CHR 0xBC, CHR 0xC3, CHR 0xB5,
                CHR 0xC3, CHR 0x85]"

definition mark_search :: string where
  "mark_search = [CHR 0xEF, CHR 0xA3, CHR 0xBF, CHR 0xC3, CHR 0xBC, CHR 0xC3, CHR 0xAE,
                  CHR 0xC3, CHR 0xA7]"

definition mark_sparkle :: string where
  "mark_sparkle = [CHR 0xE2, CHR 0x80, CHR 0x9A, CHR 0xC3, CHR 0xBA, CHR 0xC2, CHR 0xAE]"

subsection \<open>\<open>create_langchain_documents\<close>\<close>

record document =
  page_content :: string
  metadata :: pydict

text \<open>
  \<open>location.split(",")[-1].strip().lower() if location else "unknown"\<close>: a value that is
  true and is not a text has no \<open>split\<close>.
\<close>

definition city_of :: "pyval \<Rightarrow> py_error + string" where
  "city_of location =
     (if py_truthy location then
        (case location of
           PStr s \<Rightarrow> Inr (lower (strip (last (split_on CHR '','' s))))
         | _ \<Rightarrow> Inl AttributeError)
      else Inr ''unknown'')"

text \<open>The body of the loop of \<open>create_langchain_documents\<close>: one document of one record.\<close>

definition create_document :: "(pyval \<Rightarrow> string) \<Rightarrow> pydict \<Rightarrow> py_error + document" where
  "create_document other apartment =
     bind_err (py_join '', '' (py_get apartment ''amenities'' (PList []))) (\<lambda>amenities.
       let location = py_get apartment ''location'' (PStr ''an unknown location'');
           price = py_get apartment ''price'' (PStr ''a negotiable price'');
           bedrooms = py_get apartment ''bedrooms'' (PStr ''?'');
           area = py_get apartment ''area_sqft'' (PStr ''unknown area'');
           text =
             ''This is a '' @ py_str other bedrooms @ '' BHK apartment in '' @
             py_str other location @ ''. '' @
             ''It spans '' @ py_str other area @ '' sqft and is priced at '' @
             mark_rupee @ py_str other price @ ''. '' @
             ''Key amenities include: '' @ amenities @ ''.''
       in bind_err (city_of location) (\<lambda>city.
            Inr \<lparr>page_content = text,
                 metadata =
                   [(''bedrooms'', bedrooms),
                    (''location'', location),
                    (''price'', price),
                    (''area_sqft'', area),
                    (''amenities'', PStr amenities),
                    (''city'', PStr city)]\<rparr>))"

fun create_langchain_documents ::
  "(pyval \<Rightarrow> string) \<Rightarrow> pydict list \<Rightarrow> py_error + document list" where
  "create_langchain_documents other [] = Inr []"
| "create_langchain_documents other (apartment # data) =
     bind_err (create_document other apartment) (\<lambda>doc.
       bind_err (create_langchain_documents other data) (\<lambda>docs. Inr (doc # docs)))"

subsection \<open>The collaborators\<close>

text \<open>
  The document store, the vector index and the rendering of floats and containers as
  text are outside the program. They are the parameters of the model:
  \<^item> \<open>get_unique_locations\<close>: the result of \<open>get_unique_locations()\<close>, the distinct
    non-empty locations of the store;
  \<^item> \<open>collection_find f\<close>: \<open>list(collection.find(f, {"_id": 0}))\<close>;
  \<^item> \<open>collection_find_sorted f field order k\<close>:
    \<open>list(collection.find(f, {"_id": 0}).sort(field, order).limit(k))\<close>;
  \<^item> \<open>similarity_search_with_score query k\<close>: the pairs of a document and its distance
    that the index returns;
  \<^item> \<open>str_other\<close>: the text of a float or of a container.
  A call of the store or of the index that fails raises in the library, outside the
  program, and is not modelled.
\<close>

record collaborators =
  get_unique_locations :: "string list"
  collection_find :: "pydict \<Rightarrow> pydict list"
  collection_find_sorted :: "pydict \<Rightarrow> string \<Rightarrow> int \<Rightarrow> int \<Rightarrow> pydict list"
  similarity_search_with_score :: "string \<Rightarrow> int \<Rightarrow> (document \<times> rat) list"
  str_other :: "pyval \<Rightarrow> string"

subsection \<open>\<open>chromadb_semantic_search\<close>\<close>

text \<open>
  The key of a document is a tuple, looked up in a Python set: building it reads the
  four fields (\<open>KeyError\<close> when one is missing), hashing it raises \<open>TypeError\<close> when a
  field is a list or a dict, and two keys are the same when their fields are equal
  under \<open>==\<close>, which identifies \<open>True\<close>, \<open>1\<close> and \<open>1.0\<close>. \<open>hash_class\<close> maps a value to the
  representative of its \<open>==\<close> class, so that the set holds representatives.
\<close>

fun hashable :: "pyval \<Rightarrow> bool" where
  "hashable (PList vs) = False"
| "hashable (PDict kvs) = False"
| "hashable v = True"

fun hash_class :: "pyval \<Rightarrow> pyval" where
  "hash_class (PBool b) = PFloat (if b then 1 else 0)"
| "hash_class (PInt i) = PFloat (of_int i)"
| "hash_class v = v"

type_synonym dedup_key = "pyval \<times> pyval \<times> pyval \<times> pyval"

definition dedup_key :: "pydict \<Rightarrow> py_error + dedup_key" where
  "dedup_key meta =
     bind_err (py_getitem meta ''bedrooms'') (\<lambda>b.
     bind_err (py_getitem meta ''location'') (\<lambda>l.
     bind_err (py_getitem meta ''price'') (\<lambda>p.
     bind_err (py_getitem meta ''area_sqft'') (\<lambda>a.
       if hashable b \<and> hashable l \<and> hashable p \<and> hashable a
       then Inr (hash_class b, hash_class l, hash_class p, hash_class a)
       else Inl TypeError))))"

text \<open>
  The two assignments to \<open>meta\<close> for a document that is kept: the rounded score, then
  the summary, whose f-string reads five fields of \<open>meta\<close>.
\<close>

definition semantic_item :: "(pyval \<Rightarrow> string) \<Rightarrow> pydict \<Rightarrow> rat \<Rightarrow> py_error + pydict" where
  "semantic_item other meta score =
     (let meta1 = AList.update ''similarity_score'' (PFloat (py_round score 4)) meta in
      bind_err (py_getitem meta1 ''bedrooms'') (\<lambda>b.
      bind_err (py_getitem meta1 ''location'') (\<lambda>l.
      bind_err (py_getitem meta1 ''area_sqft'') (\<lambda>a.
      bind_err (py_getitem meta1 ''price'') (\<lambda>p.
      bind_err (py_getitem meta1 ''amenities'') (\<lambda>am.
        Inr (AList.update ''summary''
               (PStr (mark_house @ '' A '' @ py_str other b @ '' BHK apartment in '' @
                      py_str other l @ '' spanning '' @ py_str other a @ '' sqft, '' @
                      ''available at '' @ mark_rupee @ py_str other p @
                      ''. Amenities include '' @ py_str other am @ ''.''))
               meta1)))))))"

text \<open>
  The loop over the results of the index, with the set \<open>unique\<close> and the list
  \<open>filtered\<close> as its state. The test of the length is made after every document, kept
  or not, and ends the loop.
\<close>

fun semantic_loop ::
  "(pyval \<Rightarrow> string) \<Rightarrow> int \<Rightarrow> (document \<times> rat) list \<Rightarrow> dedup_key set \<Rightarrow> pydict list \<Rightarrow>
   py_error + pydict list" where
  "semantic_loop other top_k [] unique filtered = Inr filtered"
| "semantic_loop other top_k ((doc, score) # results) unique filtered =
     bind_err (dedup_key (metadata doc)) (\<lambda>key.
       if key \<notin> unique then
         bind_err (semantic_item other (metadata doc) score) (\<lambda>meta.
           let filtered' = filtered @ [meta];
               unique' = insert key unique
           in if top_k \<le> int (length filtered') then Inr filtered'
              else semantic_loop other top_k results unique' filtered')
       else if top_k \<le> int (length filtered) then Inr filtered
       else semantic_loop other top_k results unique filtered)"

definition chromadb_semantic_search ::
  "collaborators \<Rightarrow> string \<Rightarrow> int \<Rightarrow> py_error + pydict list" where
  "chromadb_semantic_search c query top_k =
     semantic_loop (str_other c) top_k
       (similarity_search_with_score c query (top_k * 2)) {} []"

section \<open>The query handler\<close>

subsection \<open>Retrieval\<close>

definition handle_location_specific_sort ::
  "collaborators \<Rightarrow> string \<Rightarrow> string \<Rightarrow> int \<Rightarrow> string list \<Rightarrow> int \<Rightarrow> pydict list" where
  "handle_location_specific_sort c query sort_field sort_order available_locations top_k =
     (let location = extract_location_from_query query available_locations;
          flt = location_step location []
      in collection_find_sorted c flt sort_field sort_order top_k)"

definition filter_based_search ::
  "collaborators \<Rightarrow> string \<Rightarrow> string list \<Rightarrow> py_error + pydict list" where
  "filter_based_search c query available_locations =
     bind_err (filter_of_query query available_locations) (\<lambda>flt.
       Inr (collection_find c flt))"

text \<open>The chain of \<open>if\<close>/\<open>elif\<close> of \<open>handle_user_query\<close> that sets \<open>results\<close>.\<close>

definition retrieve ::
  "collaborators \<Rightarrow> string \<Rightarrow> string \<Rightarrow> string list \<Rightarrow> int \<Rightarrow> py_error + pydict list" where
  "retrieve c intent query available_locations top_k =
     (if intent = ''sort_by_price_desc_location'' then
        Inr (handle_location_specific_sort c query ''price'' (- 1) available_locations top_k)
      else if intent = ''sort_by_price_asc_location'' then
        Inr (handle_location_specific_sort c query ''price'' 1 available_locations top_k)
      else if intent = ''sort_by_area_desc_location'' then
        Inr (handle_location_specific_sort c query ''area_sqft'' (- 1) available_locations
               top_k)
      else if intent = ''sort_by_area_asc_location'' then
        Inr (handle_location_specific_sort c query ''area_sqft'' 1 available_locations top_k)
      else if intent = ''sort_by_price_desc'' then
        Inr (collection_find_sorted c [] ''price'' (- 1) top_k)
      else if intent = ''sort_by_price_asc'' then
        Inr (collection_find_sorted c [] ''price'' 1 top_k)
      else if intent = ''sort_by_area_desc'' then
        Inr (collection_find_sorted c [] ''area_sqft'' (- 1) top_k)
      else if intent = ''sort_by_area_asc'' then
        Inr (collection_find_sorted c [] ''area_sqft'' 1 top_k)
      else if intent = ''filter_search'' then
        filter_based_search c query available_locations
      else chromadb_semantic_search c query top_k)"

subsection \<open>Formatting\<close>

text \<open>
  The amenities line of the summary: the items joined when the value is a list, the
  text of the value otherwise, \<open>None\<close> when there is none.
\<close>

definition amenities_text :: "(pyval \<Rightarrow> string) \<Rightarrow> pydict \<Rightarrow> py_error + string" where
  "amenities_text other item =
     (case py_get item ''amenities'' PNone of
        PList vs \<Rightarrow> py_join '', '' (py_get item ''amenities'' (PList []))
      | _ \<Rightarrow> Inr (py_str other (py_get item ''amenities'' (PStr ''None''))))"

definition item_details :: "pydict \<Rightarrow> pydict" where
  "item_details item =
     [(''bedrooms'', py_get item ''bedrooms'' PNone),
      (''location'', py_get item ''location'' PNone),
      (''price'', py_get item ''price'' PNone),
      (''area_sqft'', py_get item ''area_sqft'' PNone),
      (''amenities'', py_get item ''amenities'' PNone)]"

text \<open>The body of the loop that builds \<open>enriched_results\<close>.\<close>

definition enrich_item :: "(pyval \<Rightarrow> string) \<Rightarrow> pydict \<Rightarrow> py_error + pydict" where
  "enrich_item other item =
     bind_err (amenities_text other item) (\<lambda>amenities.
       let summary =
             mark_house @ '' **'' @ py_str other (py_get item ''bedrooms'' (PStr ''?'')) @
               '' BHK Apartment**'' @ [CHR 0x0A] @
             mark_pin @ '' **Location:** '' @
               py_str other (py_get item ''location'' (PStr ''unknown location'')) @
               [CHR 0x0A] @
             mark_ruler @ '' **Area:** '' @
               py_str other (py_get item ''area_sqft'' (PStr ''?'')) @ '' sqft'' @
               [CHR 0x0A] @
             mark_money @ '' **Price:** '' @ mark_rupee @
               py_str other (py_get item ''price'' (PStr ''?'')) @ [CHR 0x0A] @
             mark_bath @ '' **Amenities:** '' @ amenities @ [CHR 0x0A]
       in bind_err
            (if has_key item ''similarity_score'' then
               bind_err (py_getitem item ''similarity_score'') (\<lambda>score.
                 bind_err (format_2f score) (\<lambda>text.
                   Inr (summary @ mark_search @ '' **Relevance Score:** '' @ text)))
             else Inr summary)
            (\<lambda>summary'.
               Inr [(''summary'', PStr summary'), (''details'', PDict (item_details item))]))"

fun enrich_results :: "(pyval \<Rightarrow> string) \<Rightarrow> pydict list \<Rightarrow> py_error + pydict list" where
  "enrich_results other [] = Inr []"
| "enrich_results other (item # results) =
     bind_err (enrich_item other item) (\<lambda>enriched_item.
       bind_err (enrich_results other results) (\<lambda>rest. Inr (enriched_item # rest)))"

definition greeting_item :: pydict where
  "greeting_item =
     [(''summary'',
       PStr (mark_wave @ '' Hello! I'' @ [CHR 0x27] @
             ''m your apartment search assistant. '' @
             ''How can I help you find your perfect home today?'')),
      (''type'', PStr ''greeting'')]"

definition no_results_item :: pydict where
  "no_results_item =
     [(''summary'',
       PStr (mark_search @ '' I couldn'' @ [CHR 0x27] @
             ''t find any apartments matching your criteria. '' @
             ''Try broadening your search or adjusting your filters.'')),
      (''type'', PStr ''no_results'')]"

text \<open>
  The header: the tests are containment in the intent, so that a location-qualified
  intent takes the branch of its unqualified one.
\<close>

definition header_text :: "string \<Rightarrow> string option \<Rightarrow> string" where
  "header_text intent location =
     (let place =
            (case location of
               None \<Rightarrow> '' we have''
             | Some loc \<Rightarrow> if loc \<noteq> [] then '' in '' @ loc else '' we have'')
      in if sublist ''sort_by_price_desc'' intent then
           ''Here are the most expensive apartments'' @ place @ '':''
         else if sublist ''sort_by_price_asc'' intent then
           ''Here are the most affordable apartments'' @ place @ '':''
         else if sublist ''sort_by_area_desc'' intent then
           ''Here are the largest apartments'' @ place @ '':''
         else if sublist ''sort_by_area_asc'' intent then
           ''Here are the most compact apartments'' @ place @ '':''
         else if intent = ''filter_search'' then
           ''Here are apartments matching your filters:''
         else ''Here are some apartments that might interest you:'')"

definition header_item :: "string \<Rightarrow> pydict" where
  "header_item header =
     [(''summary'', PStr (mark_sparkle @ '' '' @ header)), (''type'', PStr ''header'')]"

subsection \<open>\<open>handle_user_query\<close>\<close>

definition handle_user_query :: "collaborators \<Rightarrow> string \<Rightarrow> int \<Rightarrow> py_error + pydict list" where
  "handle_user_query c query top_k =
     (let available_locations = get_unique_locations c;
          intent = classify_user_query query available_locations
      in if intent = ''greeting'' then Inr [greeting_item]
         else
           bind_err (retrieve c intent query available_locations top_k) (\<lambda>results.
           bind_err (enrich_results (str_other c) results) (\<lambda>enriched_results.
             if enriched_results = [] then Inr [no_results_item]
             else
               let location = extract_location_from_query query available_locations;
                   header = header_text intent location
               in if header \<noteq> [] then Inr (header_item header # enriched_results)
                  else Inr enriched_results)))"

section \<open>The response: \<open>get_chat_response\<close>\<close>

text \<open>The body of the loop over \<open>matches\<close>: one result item of the envelope.\<close>

definition result_item :: "pydict \<Rightarrow> py_error + pydict" where
  "result_item m =
     bind_err (py_float (py_get m ''similarity_score'' (PInt 0))) (\<lambda>score.
       Inr [(''summary'', py_get m ''summary'' (PStr ''No summary available.'')),
            (''similarity_score'', PFloat (py_round score 3))])"

fun result_items :: "pydict list \<Rightarrow> py_error + pydict list" where
  "result_items [] = Inr []"
| "result_items (m # matches) =
     bind_err (result_item m) (\<lambda>r.
       bind_err (result_items matches) (\<lambda>rs. Inr (r # rs)))"

text \<open>\<open>handle_user_query(query)\<close> is called with its default \<open>top_k=5\<close>.\<close>

definition get_chat_response :: "collaborators \<Rightarrow> string \<Rightarrow> py_error + pydict" where
  "get_chat_response c query =
     bind_err (handle_user_query c query 5) (\<lambda>matches.
       case matches of
         [] \<Rightarrow>
           Inr [(''status'', PStr ''no_results''),
                (''message'', PStr ''Sorry, no matching apartments found.''),
                (''results'', PList [])]
       | first # rest \<Rightarrow>
           if py_get first ''type'' PNone = PStr ''greeting'' then
             bind_err (py_getitem first ''summary'') (\<lambda>summary.
               Inr [(''status'', PStr ''greeting''),
                    (''message'', summary),
                    (''results'', PList [])])
           else
             bind_err (result_items matches) (\<lambda>results.
               Inr [(''status'', PStr ''success''),
                    (''query'', PStr query),
                    (''results'', PList (map PDict results))]))"

section \<open>Reference formulations\<close>

text \<open>
  The three stages of location resolution as the specification words them, each stage
  by the first entry of the location map that matches: the full lowercased location,
  then its city part, then the first alias that occurs in the query and in some
  location. The resolver of the source is compared with this below.
\<close>

definition all_aliases :: "string list" where
  "all_aliases = concat (map snd city_aliases)"

definition direct_hit :: "string \<Rightarrow> string \<times> string \<Rightarrow> bool" where
  "direct_hit query = (\<lambda>(loc_lower, loc_standard). sublist loc_lower query)"

definition city_hit :: "string \<Rightarrow> string \<times> string \<Rightarrow> bool" where
  "city_hit query = (\<lambda>(loc_lower, loc_standard). sublist (city_part loc_lower) query)"

definition alias_in :: "string \<Rightarrow> string \<times> string \<Rightarrow> bool" where
  "alias_in alias = (\<lambda>(loc_lower, loc_standard). sublist alias loc_lower)"

definition alias_hit :: "string \<Rightarrow> (string \<times> string) list \<Rightarrow> string \<Rightarrow> bool" where
  "alias_hit query lm alias = (sublist alias query \<and> list_ex (alias_in alias) lm)"

definition resolve_by_priority :: "string \<Rightarrow> (string \<times> string) list \<Rightarrow> string option" where
  "resolve_by_priority query lm =
     (case find (direct_hit query) lm of
        Some (loc_lower, loc_standard) \<Rightarrow> Some loc_standard
      | None \<Rightarrow>
          (case find (city_hit query) lm of
             Some (loc_lower, loc_standard) \<Rightarrow> Some loc_standard
           | None \<Rightarrow>
               (case find (alias_hit query lm) all_aliases of
                  Some alias \<Rightarrow> map_option snd (find (alias_in alias) lm)
                | None \<Rightarrow> None)))"

text \<open>The two price patterns of \<open>filter_based_search\<close>, searched in a query.\<close>

definition ceiling_match :: "string \<Rightarrow> string option" where
  "ceiling_match query = re_search (match_keyword_amount [''under'', ''below'']) query"

definition floor_match :: "string \<Rightarrow> string option" where
  "floor_match query = re_search (match_keyword_amount [''above'', ''over'']) query"

text \<open>
  The amount that \<open>int\<close> makes of the digits of a match: none when there is no match,
  and none when the digits are more than \<open>int\<close> converts.
\<close>

definition converted :: "string option \<Rightarrow> int option" where
  "converted m =
     (case m of
        None \<Rightarrow> None
      | Some ds \<Rightarrow> if max_str_digits < length ds then None else Some (digits_value ds))"

text \<open>All the phrases of the four superlative patterns of the classifier.\<close>

definition sort_phrases :: "string list" where
  "sort_phrases =
     price_desc_phrases @ price_asc_phrases @ area_desc_phrases @ area_asc_phrases"

text \<open>
  For the semantic search: a pair of the index is \<open>emitted\<close> as an item when the item is
  what the loop makes of the pair; an item is \<open>keyed_in\<close> a set when its key is in the
  set; a metadata dict is well formed when it has the five fields the loop reads and
  the four fields of the key can be hashed, as the metadata written by
  \<open>create_langchain_documents\<close> from scalar fields is.
\<close>

definition emitted :: "(pyval \<Rightarrow> string) \<Rightarrow> document \<times> rat \<Rightarrow> pydict \<Rightarrow> bool" where
  "emitted other = (\<lambda>(doc, score) meta. semantic_item other (metadata doc) score = Inr meta)"

definition keyed_in :: "dedup_key set \<Rightarrow> pydict \<Rightarrow> bool" where
  "keyed_in unique meta = (case dedup_key meta of Inl e \<Rightarrow> False | Inr k \<Rightarrow> k \<in> unique)"

definition well_formed_meta :: "pydict \<Rightarrow> bool" where
  "well_formed_meta meta =
     (list_all (has_key meta)
        [''bedrooms'', ''location'', ''price'', ''area_sqft'', ''amenities''] \<and>
      list_all (\<lambda>k. hashable (py_get meta k PNone))
        [''bedrooms'', ''location'', ''price'', ''area_sqft''])"

text \<open>
  For the response: \<open>zero_scored\<close> is the result item that \<open>get_chat_response\<close> makes of a
  match without a score; \<open>result_scores\<close> reads the \<open>similarity_score\<close> field of every
  result item of a response, and \<open>details_of_items\<close> the \<open>details\<close> of every item that
  \<open>handle_user_query\<close> returns.
\<close>

definition zero_scored :: "pydict \<Rightarrow> pydict" where
  "zero_scored m =
     [(''summary'', py_get m ''summary'' (PStr ''No summary available.'')),
      (''similarity_score'', PFloat 0)]"

definition result_scores :: "py_error + pydict \<Rightarrow> pyval option list" where
  "result_scores response =
     (case response of
        Inl e \<Rightarrow> []
      | Inr env \<Rightarrow>
          (case map_of env ''results'' of
             Some (PList items) \<Rightarrow>
               map (\<lambda>item. case item of PDict d \<Rightarrow> map_of d ''similarity_score'' | _ \<Rightarrow> None)
                 items
           | _ \<Rightarrow> []))"

definition details_of_items :: "py_error + pydict list \<Rightarrow> pyval list" where
  "details_of_items r =
     (case r of Inl e \<Rightarrow> [] | Inr out \<Rightarrow> map (\<lambda>e. py_get e ''details'' PNone) out)"

section \<open>Example data\<close>

text \<open>
  One store record, the document made of it, and two sets of collaborators: an empty
  store with an empty index, and a store and an index that hold the record (the index
  twice, as after a second start of the program on the same persisted directory).
\<close>

definition demo_apartment :: pydict where
  "demo_apartment =
     [(''bedrooms'', PInt 2),
      (''location'', PStr ''Baner, Pune''),
      (''price'', PInt 25000),
      (''area_sqft'', PInt 900),
      (''amenities'', PList [PStr ''Gym'', PStr ''Parking''])]"

definition demo_other :: "pyval \<Rightarrow> string" where
  "demo_other v = ''<value>''"

definition demo_document :: document where
  "demo_document =
     \<lparr>page_content =
        ''This is a '' @ int_str 2 @ '' BHK apartment in '' @ ''Baner, Pune'' @ ''. '' @
        ''It spans '' @ int_str 900 @ '' sqft and is priced at '' @
        mark_rupee @ int_str 25000 @ ''. '' @
        ''Key amenities include: '' @ ''Gym, Parking'' @ ''.'',
      metadata =
        [(''bedrooms'', PInt 2),
         (''location'', PStr ''Baner, Pune''),
         (''price'', PInt 25000),
         (''area_sqft'', PInt 900),
         (''amenities'', PStr ''Gym, Parking''),
         (''city'', PStr ''pune'')]\<rparr>"

definition empty_store :: collaborators where
  "empty_store =
     \<lparr>get_unique_locations = [],
      collection_find = (\<lambda>flt. []),
      collection_find_sorted = (\<lambda>flt sort_field sort_order k. []),
      similarity_search_with_score = (\<lambda>query k. []),
      str_other = demo_other\<rparr>"

definition demo_store :: collaborators where
  "demo_store =
     \<lparr>get_unique_locations = [''Baner, Pune''],
      collection_find = (\<lambda>flt. [demo_apartment]),
      collection_find_sorted = (\<lambda>flt sort_field sort_order k. [demo_apartment]),
      similarity_search_with_score =
        (\<lambda>query k. take (nat k) [(demo_document, 2469 / 20000), (demo_document, 3 / 10)]),
      str_other = demo_other\<rparr>"

text \<open>A run of digits that is one digit longer than \<open>int\<close> converts.\<close>

definition long_amount :: string where
  "long_amount = replicate 4301 (CHR ''9'')"

section \<open>Containment and trimming\<close>

lemma sublist_dropWhile:
  assumes "p \<noteq> []" "\<not> P (hd p)" "sublist p s"
  shows "sublist p (dropWhile P s)"
  using assms
proof (induction s)
  case Nil
  then show ?case by simp
next
  case (Cons x xs)
  show ?case
  proof (cases "P x")
    case True
    have "\<not> prefix p (x # xs)"
      using Cons.prems(1,2) True by (cases p) auto
    then have "sublist p xs"
      using Cons.prems(3) by (simp add: sublist_Cons_right)
    then show ?thesis
      using Cons.IH Cons.prems(1,2) True by simp
  next
    case False
    then show ?thesis using Cons.prems(3) by simp
  qed
qed

lemma strip_sublist: "sublist (strip s) s"
proof -
  have "suffix (dropWhile is_space s) s"
    by (rule suffix_dropWhile)
  moreover have "prefix (strip s) (dropWhile is_space s)"
    unfolding strip_def
    by (metis prefix_def rev_append rev_rev_ident suffix_def suffix_dropWhile)
  ultimately show ?thesis
    by (meson prefix_imp_sublist suffix_imp_sublist sublist_order.order_trans)
qed

text \<open>
  A phrase that neither starts nor ends with white space occurs in the trimmed text
  exactly when it occurs in the text.
\<close>

definition solid :: "string \<Rightarrow> bool" where
  "solid p = (p \<noteq> [] \<and> \<not> is_space (hd p) \<and> \<not> is_space (last p))"

lemma sublist_strip:
  assumes "solid p"
  shows "sublist p (strip s) = sublist p s"
proof
  assume "sublist p (strip s)"
  then show "sublist p s"
    using strip_sublist by (rule sublist_order.order_trans)
next
  assume "sublist p s"
  have p: "p \<noteq> []" "\<not> is_space (hd p)" "\<not> is_space (last p)"
    using assms by (simp_all add: solid_def)
  from p(1,2) \<open>sublist p s\<close> have "sublist p (dropWhile is_space s)"
    by (rule sublist_dropWhile)
  then have "sublist (rev p) (rev (dropWhile is_space s))"
    by simp
  moreover have "rev p \<noteq> []" "\<not> is_space (hd (rev p))"
    using p(1,3) by (simp_all add: hd_rev)
  ultimately have "sublist (rev p) (dropWhile is_space (rev (dropWhile is_space s)))"
    by (intro sublist_dropWhile)
  then have "sublist (rev (rev p)) (strip s)"
    unfolding strip_def by (subst sublist_rev)
  then show "sublist p (strip s)" by simp
qed

lemma list_ex_strip:
  "list_all solid ps \<Longrightarrow>
   list_ex (\<lambda>p. sublist p (strip s)) ps = list_ex (\<lambda>p. sublist p s) ps"
  by (induction ps) (simp_all add: sublist_strip)

lemma solid_greetings: "list_all solid greetings"
  by (simp add: greetings_def solid_def is_space_def)

lemma solid_sort_phrases: "list_all solid sort_phrases"
  by (simp add: sort_phrases_def price_desc_phrases_def price_asc_phrases_def
      area_desc_phrases_def area_asc_phrases_def solid_def is_space_def)

lemma solid_filter_words: "list_all solid filter_words"
  by (simp add: filter_words_def solid_def is_space_def)

section \<open>The intent classifier\<close>

lemma classify_greeting:
  "list_ex (\<lambda>g. sublist g (strip (lower q))) greetings \<Longrightarrow>
   classify_user_query q locs = ''greeting''"
  by (simp add: classify_user_query_def)

lemma re_search_alt_sort_phrases:
  "re_search_alt sort_phrases s \<longleftrightarrow>
     re_search_alt price_desc_phrases s \<or> re_search_alt price_asc_phrases s \<or>
     re_search_alt area_desc_phrases s \<or> re_search_alt area_asc_phrases s"
  by (simp add: re_search_alt_def sort_phrases_def list_ex_iff) blast

lemma classify_filter_search:
  assumes "\<not> list_ex (\<lambda>g. sublist g (strip (lower q))) greetings"
    and "\<not> re_search_alt sort_phrases (strip (lower q))"
    and "list_ex (\<lambda>w. sublist w (strip (lower q))) filter_words"
  shows "classify_user_query q locs = ''filter_search''"
  using assms by (simp add: classify_user_query_def re_search_alt_sort_phrases Let_def)

lemma classify_semantic_search:
  assumes "classify_user_query q locs = ''semantic_search''"
  shows "\<not> list_ex (\<lambda>g. sublist g (strip (lower q))) greetings"
    and "\<not> re_search_alt sort_phrases (strip (lower q))"
    and "\<not> list_ex (\<lambda>w. sublist w (strip (lower q))) filter_words"
  using assms
  by (simp_all add: classify_user_query_def re_search_alt_sort_phrases Let_def
      split: if_splits)

text \<open>
  Claim C5. A query whose lowercased, trimmed text contains a phrase of the greeting
  set is classified as a greeting, whatever else the query contains and whatever the
  known locations are.
\<close>

theorem greeting_precedes_other_intents:
  "list_ex (\<lambda>g. sublist g (strip (lower q))) greetings \<Longrightarrow>
   classify_user_query q locs = ''greeting''"
  by (rule classify_greeting)

theorem greeting_precedes_other_intents_witness:
  "list_ex (\<lambda>g. sublist g (strip (lower ''hi, show cheapest 2 bhk in Pune''))) greetings \<and>
   classify_user_query ''hi, show cheapest 2 bhk in Pune'' [''Baner, Pune''] = ''greeting''"
proof -
  have h: "list_ex (\<lambda>g. sublist g (strip (lower ''hi, show cheapest 2 bhk in Pune''))) greetings"
    by code_simp
  show ?thesis
    using h greeting_precedes_other_intents [OF h, of "[''Baner, Pune'']"] by simp
qed

text \<open>
  Claim C9. Greeting detection is containment, not word matching: a query whose
  lowercased text contains \<open>hi\<close> anywhere is classified as a greeting, and so is every
  query that mentions \<open>delhi\<close>, which therefore reaches no sort, filter or semantic
  intent.
\<close>

theorem greeting_is_substring_match:
  "(sublist ''hi'' (lower q) \<longrightarrow> classify_user_query q locs = ''greeting'') \<and>
   (sublist ''delhi'' (lower q) \<longrightarrow> classify_user_query q locs = ''greeting'')"
proof -
  have hi: "classify_user_query q locs = ''greeting''" if "sublist ''hi'' (lower q)"
  proof -
    have "sublist ''hi'' (strip (lower q))"
      using that by (subst sublist_strip) (simp_all add: solid_def is_space_def)
    then have "list_ex (\<lambda>g. sublist g (strip (lower q))) greetings"
      by (simp add: greetings_def)
    then show ?thesis by (rule classify_greeting)
  qed
  have "sublist ''hi'' ''delhi''"
    by (simp add: sublist_code)
  then have "sublist ''hi'' (lower q)" if "sublist ''delhi'' (lower q)"
    using that by (rule sublist_order.order_trans)
  with hi show ?thesis by blast
qed

theorem greeting_is_substring_match_witness:
  "sublist ''hi'' (lower ''Flats in Delhi under 20000'') \<and>
   sublist ''delhi'' (lower ''Flats in Delhi under 20000'') \<and>
   classify_user_query ''Flats in Delhi under 20000'' [''Saket, Delhi''] = ''greeting''"
proof -
  have h1: "sublist ''hi'' (lower ''Flats in Delhi under 20000'')"
    by code_simp
  have h2: "sublist ''delhi'' (lower ''Flats in Delhi under 20000'')"
    by code_simp
  show ?thesis
    using h1 h2
      greeting_is_substring_match [of "''Flats in Delhi under 20000''" "[''Saket, Delhi'']"]
    by simp
qed

text \<open>
  Claim C10. Filter trigger words are matched as substrings: a query that contains no
  greeting phrase and no superlative sort phrase and whose lowercased text contains
  \<open>in\<close> anywhere is classified \<open>filter_search\<close>; and \<open>semantic_search\<close> is returned only
  when the lowercased text contains no greeting phrase, no sort phrase and no filter
  trigger word.
\<close>

theorem filter_trigger_is_substring_match:
  "(\<not> list_ex (\<lambda>g. sublist g (lower q)) greetings \<and>
    \<not> re_search_alt sort_phrases (lower q) \<and>
    sublist ''in'' (lower q) \<longrightarrow> classify_user_query q locs = ''filter_search'') \<and>
   (classify_user_query q locs = ''semantic_search'' \<longrightarrow>
      \<not> list_ex (\<lambda>w. sublist w (lower q)) (greetings @ sort_phrases @ filter_words))"
proof (intro conjI impI)
  assume a: "\<not> list_ex (\<lambda>g. sublist g (lower q)) greetings \<and>
    \<not> re_search_alt sort_phrases (lower q) \<and> sublist ''in'' (lower q)"
  have g: "\<not> list_ex (\<lambda>g. sublist g (strip (lower q))) greetings"
    using a by (simp add: list_ex_strip [OF solid_greetings])
  have s: "\<not> re_search_alt sort_phrases (strip (lower q))"
    using a by (simp add: re_search_alt_def list_ex_strip [OF solid_sort_phrases])
  have "list_ex (\<lambda>w. sublist w (lower q)) filter_words"
    using a by (simp add: filter_words_def)
  then have w: "list_ex (\<lambda>w. sublist w (strip (lower q))) filter_words"
    by (simp add: list_ex_strip [OF solid_filter_words])
  from g s w show "classify_user_query q locs = ''filter_search''"
    by (rule classify_filter_search)
next
  assume c: "classify_user_query q locs = ''semantic_search''"
  have "\<not> list_ex (\<lambda>g. sublist g (lower q)) greetings"
    using classify_semantic_search(1) [OF c]
    by (simp add: list_ex_strip [OF solid_greetings])
  moreover have "\<not> list_ex (\<lambda>p. sublist p (lower q)) sort_phrases"
    using classify_semantic_search(2) [OF c]
    by (simp add: re_search_alt_def list_ex_strip [OF solid_sort_phrases])
  moreover have "\<not> list_ex (\<lambda>w. sublist w (lower q)) filter_words"
    using classify_semantic_search(3) [OF c]
    by (simp add: list_ex_strip [OF solid_filter_words])
  ultimately show
    "\<not> list_ex (\<lambda>w. sublist w (lower q)) (greetings @ sort_phrases @ filter_words)"
    by simp
qed

theorem filter_trigger_is_substring_match_witness:
  "\<not> list_ex (\<lambda>g. sublist g (lower ''A flat for an interested buyer'')) greetings \<and>
   \<not> re_search_alt sort_phrases (lower ''A flat for an interested buyer'') \<and>
   sublist ''in'' (lower ''A flat for an interested buyer'') \<and>
   classify_user_query ''A flat for an interested buyer'' [] = ''filter_search'' \<and>
   classify_user_query ''nice flat'' [] = ''semantic_search'' \<and>
   \<not> list_ex (\<lambda>w. sublist w (lower ''nice flat'')) (greetings @ sort_phrases @ filter_words)"
proof -
  have h1: "\<not> list_ex (\<lambda>g. sublist g (lower ''A flat for an interested buyer'')) greetings"
    by code_simp
  have h2: "\<not> re_search_alt sort_phrases (lower ''A flat for an interested buyer'')"
    by code_simp
  have h3: "sublist ''in'' (lower ''A flat for an interested buyer'')"
    by code_simp
  have h4: "classify_user_query ''nice flat'' [] = ''semantic_search''"
    by code_simp
  show ?thesis
    using h1 h2 h3 h4
      filter_trigger_is_substring_match [of "''A flat for an interested buyer''" "[]"]
      filter_trigger_is_substring_match [of "''nice flat''" "[]"]
    by simp
qed

section \<open>The location resolver\<close>

lemma direct_match_find:
  "direct_match query lm = map_option snd (find (direct_hit query) lm)"
  by (induction lm) (auto simp: direct_hit_def)

lemma partial_match_find:
  "partial_match query lm = map_option snd (find (city_hit query) lm)"
  by (induction lm) (auto simp: city_hit_def)

lemma alias_location_find:
  "alias_location alias lm = map_option snd (find (alias_in alias) lm)"
  by (induction lm) (auto simp: alias_in_def)

lemma alias_location_None:
  "alias_location alias lm = None \<longleftrightarrow> \<not> list_ex (alias_in alias) lm"
  by (induction lm) (auto simp: alias_in_def split: if_splits)

lemma alias_list_match_append:
  "alias_list_match query lm (xs @ ys) =
     (case alias_list_match query lm xs of
        Some l \<Rightarrow> Some l
      | None \<Rightarrow> alias_list_match query lm ys)"
  by (induction xs) (auto split: option.splits)

lemma alias_match_concat:
  "alias_match query lm ls = alias_list_match query lm (concat ls)"
  by (induction ls) (auto simp: alias_list_match_append split: option.splits)

lemma alias_list_match_find:
  "alias_list_match query lm as =
     (case find (alias_hit query lm) as of
        Some alias \<Rightarrow> map_option snd (find (alias_in alias) lm)
      | None \<Rightarrow> None)"
proof (induction as)
  case Nil
  then show ?case by simp
next
  case (Cons a as)
  show ?case
  proof (cases "alias_hit query lm a")
    case True
    then obtain l where l: "alias_location a lm = Some l"
      using alias_location_None [of a lm]
      by (cases "alias_location a lm") (auto simp: alias_hit_def)
    have "alias_list_match query lm (a # as) = alias_location a lm"
      using True l by (simp add: alias_hit_def)
    then show ?thesis
      using True by (simp add: alias_location_find)
  next
    case False
    then have "sublist a query \<Longrightarrow> alias_location a lm = None"
      by (simp add: alias_location_None alias_hit_def)
    then show ?thesis
      using False Cons.IH by (cases "sublist a query") auto
  qed
qed

lemma extract_location_resolve:
  "extract_location_from_query q locs = resolve_by_priority (lower q) (location_map locs)"
  unfolding extract_location_from_query_def resolve_by_priority_def Let_def all_aliases_def
  by (simp add: direct_match_find partial_match_find alias_match_concat alias_list_match_find
      split: option.splits)

lemma find_None_list_ex: "find P xs = None \<longleftrightarrow> \<not> list_ex P xs"
  by (induction xs) simp_all

lemma find_Some_list_ex: "list_ex P xs \<Longrightarrow> \<exists>x. find P xs = Some x"
  using find_None_list_ex [of P xs] by (cases "find P xs") auto

text \<open>
  Claim C8. Location resolution goes by strict priority, the first match winning: a
  location whose full lowercased text occurs in the lowercased query is returned before
  any city-part match, a city-part match before any alias match, and when no stage
  matches the result is none.
\<close>

theorem location_priority_order:
  "extract_location_from_query q locs = resolve_by_priority (lower q) (location_map locs) \<and>
   (list_ex (direct_hit (lower q)) (location_map locs) \<longrightarrow>
      extract_location_from_query q locs =
        map_option snd (find (direct_hit (lower q)) (location_map locs))) \<and>
   (\<not> list_ex (direct_hit (lower q)) (location_map locs) \<and>
    list_ex (city_hit (lower q)) (location_map locs) \<longrightarrow>
      extract_location_from_query q locs =
        map_option snd (find (city_hit (lower q)) (location_map locs))) \<and>
   (\<not> list_ex (direct_hit (lower q)) (location_map locs) \<and>
    \<not> list_ex (city_hit (lower q)) (location_map locs) \<and>
    list_ex (alias_hit (lower q) (location_map locs)) all_aliases \<longrightarrow>
      (\<exists>alias. find (alias_hit (lower q) (location_map locs)) all_aliases = Some alias \<and>
         extract_location_from_query q locs =
           map_option snd (find (alias_in alias) (location_map locs)))) \<and>
   (\<not> list_ex (direct_hit (lower q)) (location_map locs) \<and>
    \<not> list_ex (city_hit (lower q)) (location_map locs) \<and>
    \<not> list_ex (alias_hit (lower q) (location_map locs)) all_aliases \<longrightarrow>
      extract_location_from_query q locs = None)"
proof (intro conjI impI)
  show "extract_location_from_query q locs = resolve_by_priority (lower q) (location_map locs)"
    by (rule extract_location_resolve)
next
  assume "list_ex (direct_hit (lower q)) (location_map locs)"
  then obtain x where "find (direct_hit (lower q)) (location_map locs) = Some x"
    using find_Some_list_ex by blast
  then show "extract_location_from_query q locs =
      map_option snd (find (direct_hit (lower q)) (location_map locs))"
    by (cases x) (simp add: extract_location_resolve resolve_by_priority_def)
next
  assume a: "\<not> list_ex (direct_hit (lower q)) (location_map locs) \<and>
    list_ex (city_hit (lower q)) (location_map locs)"
  then have d: "find (direct_hit (lower q)) (location_map locs) = None"
    by (simp add: find_None_list_ex)
  from a obtain x where "find (city_hit (lower q)) (location_map locs) = Some x"
    using find_Some_list_ex by blast
  then show "extract_location_from_query q locs =
      map_option snd (find (city_hit (lower q)) (location_map locs))"
    using d by (cases x) (simp add: extract_location_resolve resolve_by_priority_def)
next
  assume a: "\<not> list_ex (direct_hit (lower q)) (location_map locs) \<and>
    \<not> list_ex (city_hit (lower q)) (location_map locs) \<and>
    list_ex (alias_hit (lower q) (location_map locs)) all_aliases"
  then have d: "find (direct_hit (lower q)) (location_map locs) = None"
    and c: "find (city_hit (lower q)) (location_map locs) = None"
    by (simp_all add: find_None_list_ex)
  from a obtain a0
    where f: "find (alias_hit (lower q) (location_map locs)) all_aliases = Some a0"
    using find_Some_list_ex by blast
  then have "extract_location_from_query q locs =
      map_option snd (find (alias_in a0) (location_map locs))"
    using d c by (simp add: extract_location_resolve resolve_by_priority_def)
  with f show "\<exists>alias. find (alias_hit (lower q) (location_map locs)) all_aliases = Some alias \<and>
      extract_location_from_query q locs =
        map_option snd (find (alias_in alias) (location_map locs))"
    by blast
next
  assume "\<not> list_ex (direct_hit (lower q)) (location_map locs) \<and>
    \<not> list_ex (city_hit (lower q)) (location_map locs) \<and>
    \<not> list_ex (alias_hit (lower q) (location_map locs)) all_aliases"
  then have "find (direct_hit (lower q)) (location_map locs) = None"
    and "find (city_hit (lower q)) (location_map locs) = None"
    and "find (alias_hit (lower q) (location_map locs)) all_aliases = None"
    by (simp_all add: find_None_list_ex)
  then show "extract_location_from_query q locs = None"
    by (simp add: extract_location_resolve resolve_by_priority_def)
qed

theorem location_priority_order_witness:
  "list_ex (direct_hit (lower ''2 BHK in Baner, Pune''))
     (location_map [''Baner, Pune'', ''Andheri West, Mumbai'']) \<and>
   extract_location_from_query ''2 BHK in Baner, Pune''
     [''Baner, Pune'', ''Andheri West, Mumbai''] = Some ''Baner, Pune'' \<and>
   \<not> list_ex (direct_hit (lower ''Flats in Andheri West''))
     (location_map [''Baner, Pune'', ''Andheri West, Mumbai'']) \<and>
   list_ex (city_hit (lower ''Flats in Andheri West''))
     (location_map [''Baner, Pune'', ''Andheri West, Mumbai'']) \<and>
   extract_location_from_query ''Flats in Andheri West''
     [''Baner, Pune'', ''Andheri West, Mumbai''] = Some ''Andheri West, Mumbai'' \<and>
   \<not> list_ex (direct_hit (lower ''Flats in Mumbai''))
     (location_map [''Baner, Pune'', ''Andheri West, Mumbai'']) \<and>
   \<not> list_ex (city_hit (lower ''Flats in Mumbai''))
     (location_map [''Baner, Pune'', ''Andheri West, Mumbai'']) \<and>
   list_ex (alias_hit (lower ''Flats in Mumbai'')
     (location_map [''Baner, Pune'', ''Andheri West, Mumbai''])) all_aliases \<and>
   extract_location_from_query ''Flats in Mumbai''
     [''Baner, Pune'', ''Andheri West, Mumbai''] = Some ''Andheri West, Mumbai'' \<and>
   \<not> list_ex (direct_hit (lower ''nice flat''))
     (location_map [''Baner, Pune'', ''Andheri West, Mumbai'']) \<and>
   \<not> list_ex (city_hit (lower ''nice flat''))
     (location_map [''Baner, Pune'', ''Andheri West, Mumbai'']) \<and>
   \<not> list_ex (alias_hit (lower ''nice flat'')
     (location_map [''Baner, Pune'', ''Andheri West, Mumbai''])) all_aliases \<and>
   extract_location_from_query ''nice flat''
     [''Baner, Pune'', ''Andheri West, Mumbai''] = None"
proof -
  let ?locs = "[''Baner, Pune'', ''Andheri West, Mumbai'']"
  have d1: "list_ex (direct_hit (lower ''2 BHK in Baner, Pune'')) (location_map ?locs)"
    by code_simp
  have f1: "map_option snd (find (direct_hit (lower ''2 BHK in Baner, Pune''))
      (location_map ?locs)) = Some ''Baner, Pune''"
    by code_simp
  have d2: "\<not> list_ex (direct_hit (lower ''Flats in Andheri West'')) (location_map ?locs)"
    by code_simp
  have c2: "list_ex (city_hit (lower ''Flats in Andheri West'')) (location_map ?locs)"
    by code_simp
  have f2: "map_option snd (find (city_hit (lower ''Flats in Andheri West''))
      (location_map ?locs)) = Some ''Andheri West, Mumbai''"
    by code_simp
  have d3: "\<not> list_ex (direct_hit (lower ''Flats in Mumbai'')) (location_map ?locs)"
    by code_simp
  have c3: "\<not> list_ex (city_hit (lower ''Flats in Mumbai'')) (location_map ?locs)"
    by code_simp
  have a3: "list_ex (alias_hit (lower ''Flats in Mumbai'') (location_map ?locs)) all_aliases"
    by code_simp
  have g3: "find (alias_hit (lower ''Flats in Mumbai'') (location_map ?locs)) all_aliases
      = Some ''mumbai''"
    by code_simp
  have f3: "map_option snd (find (alias_in ''mumbai'') (location_map ?locs))
      = Some ''Andheri West, Mumbai''"
    by code_simp
  have d4: "\<not> list_ex (direct_hit (lower ''nice flat'')) (location_map ?locs)"
    by code_simp
  have c4: "\<not> list_ex (city_hit (lower ''nice flat'')) (location_map ?locs)"
    by code_simp
  have a4: "\<not> list_ex (alias_hit (lower ''nice flat'') (location_map ?locs)) all_aliases"
    by code_simp
  have r1: "extract_location_from_query ''2 BHK in Baner, Pune'' ?locs = Some ''Baner, Pune''"
    using location_priority_order [of "''2 BHK in Baner, Pune''" ?locs, THEN conjunct2] d1 f1
    by simp
  have r2: "extract_location_from_query ''Flats in Andheri West'' ?locs
      = Some ''Andheri West, Mumbai''"
    using location_priority_order [of "''Flats in Andheri West''" ?locs, THEN conjunct2]
      d2 c2 f2
    by simp
  have r3: "extract_location_from_query ''Flats in Mumbai'' ?locs
      = Some ''Andheri West, Mumbai''"
    using location_priority_order [of "''Flats in Mumbai''" ?locs, THEN conjunct2]
      d3 c3 a3 g3 f3
    by auto
  have r4: "extract_location_from_query ''nice flat'' ?locs = None"
    using location_priority_order [of "''nice flat''" ?locs, THEN conjunct2] d4 c4 a4
    by simp
  show ?thesis
    using d1 r1 d2 c2 r2 d3 c3 a3 r3 d4 c4 a4 r4 by simp
qed

section \<open>Filter extraction\<close>

lemma re_search_Some:
  "re_search m s = Some g \<Longrightarrow> \<exists>t. suffix t s \<and> m t = Some g"
proof (induction s)
  case Nil
  then show ?case by auto
next
  case (Cons c cs)
  show ?case
  proof (cases "m (c # cs)")
    case None
    with Cons.prems have "re_search m cs = Some g" by simp
    then obtain t where "suffix t cs" "m t = Some g"
      using Cons.IH by blast
    then show ?thesis
      by (meson suffix_ConsI)
  next
    case (Some a)
    with Cons.prems have "m (c # cs) = Some g" by simp
    then show ?thesis by blast
  qed
qed

lemma match_bhk_digit: "match_bhk t = Some d \<Longrightarrow> \<exists>c. d = [c] \<and> is_digit c"
  by (cases t) (auto split: if_splits)

lemma match_amount_digits:
  "match_amount s = Some ds \<Longrightarrow> ds \<noteq> [] \<and> list_all is_digit ds"
  by (auto simp: match_amount_def Let_def list_all_iff split: if_splits dest: set_takeWhileD)

lemma match_keyword_amount_digits:
  "match_keyword_amount kws s = Some ds \<Longrightarrow> ds \<noteq> [] \<and> list_all is_digit ds"
  by (induction kws) (auto split: if_splits option.splits dest: match_amount_digits)

lemma py_int_digits:
  "ds \<noteq> [] \<Longrightarrow> list_all is_digit ds \<Longrightarrow>
   py_int ds = (if max_str_digits < length ds then Inl ValueError else Inr (digits_value ds))"
  by (simp add: py_int_def)

lemma bhk_step_total:
  "bhk_step query flt =
     Inr (case re_search match_bhk query of
            None \<Rightarrow> flt
          | Some d \<Rightarrow> AList.update ''bedrooms'' (PInt (digits_value d)) flt)"
proof (cases "re_search match_bhk query")
  case None
  then show ?thesis by (simp add: bhk_step_def)
next
  case (Some d)
  from re_search_Some[OF Some] obtain t where "match_bhk t = Some d"
    by blast
  from match_bhk_digit[OF this] obtain c where "d = [c]" "is_digit c"
    by blast
  then have "py_int d = Inr (digits_value d)"
    by (simp add: py_int_def max_str_digits_def)
  then show ?thesis
    using Some by (simp add: bhk_step_def)
qed

lemma price_amount_cases:
  "price_amount kws query =
     (case re_search (match_keyword_amount kws) query of
        None \<Rightarrow> Inl AttributeError
      | Some ds \<Rightarrow>
          if max_str_digits < length ds then Inl ValueError else Inr (digits_value ds))"
proof (cases "re_search (match_keyword_amount kws) query")
  case None
  then show ?thesis by (simp add: price_amount_def)
next
  case (Some ds)
  from re_search_Some[OF Some] obtain t where "match_keyword_amount kws t = Some ds"
    by blast
  from match_keyword_amount_digits[OF this]
  have "py_int ds = (if max_str_digits < length ds then Inl ValueError else Inr (digits_value ds))"
    by (simp add: py_int_digits)
  then show ?thesis
    using Some by (simp add: price_amount_def)
qed

lemma map_of_price_step:
  "map_of (price_step query flt) ''price'' =
     (if sublist ''under'' query \<or> sublist ''below'' query then
        (case converted (ceiling_match query) of
           Some amount \<Rightarrow> Some (PDict [(''$lte'', PInt amount)])
         | None \<Rightarrow> map_of flt ''price'')
      else if sublist ''above'' query \<or> sublist ''over'' query then
        (case converted (floor_match query) of
           Some amount \<Rightarrow> Some (PDict [(''$gte'', PInt amount)])
         | None \<Rightarrow> map_of flt ''price'')
      else map_of flt ''price'')"
  by (simp add: price_step_def price_amount_cases ceiling_match_def floor_match_def
      converted_def update_conv' split: option.splits)

lemma map_of_price_step_other:
  "k \<noteq> ''price'' \<Longrightarrow> map_of (price_step query flt) k = map_of flt k"
  by (simp add: price_step_def update_conv' split: sum.splits)

lemma map_of_amenities_step:
  "map_of (amenities_step query flt) k =
     (if k = ''amenities'' \<and> amenities_of_query query \<noteq> []
      then Some (PDict [(''$all'', PList (amenities_of_query query))])
      else map_of flt k)"
  by (simp add: amenities_step_def Let_def update_conv')

lemma map_of_location_step:
  "map_of (location_step location flt) k =
     (if k = ''location'' \<and> truthy_location location
      then map_option PStr location
      else map_of flt k)"
  by (auto simp: location_step_def truthy_location_def update_conv' split: option.splits)

lemma map_of_bhk:
  "map_of (case re_search match_bhk query of
            None \<Rightarrow> []
          | Some d \<Rightarrow> AList.update ''bedrooms'' (PInt (digits_value d)) []) k =
   (if k = ''bedrooms'' then map_option (\<lambda>d. PInt (digits_value d)) (re_search match_bhk query)
    else None)"
  by (simp split: option.splits)

lemma filter_of_query_total:
  "filter_of_query q locs =
     Inr (amenities_step (lower q)
           (price_step (lower q)
             (location_step (extract_location_from_query (lower q) locs)
               (case re_search match_bhk (lower q) of
                  None \<Rightarrow> []
                | Some d \<Rightarrow> AList.update ''bedrooms'' (PInt (digits_value d)) []))))"
  by (simp add: filter_of_query_def Let_def bhk_step_total)

text \<open>
  Claim C6, as the specification states it, fails: the two price rules are the branches
  of one \<open>if\<close>/\<open>elif\<close> and write the same key. In the query below both patterns match,
  and the filter holds the ceiling only.
\<close>

theorem price_floor_dropped_counterexample:
  "ceiling_match (lower ''flat under 5000 above 1000'') = Some ''5000'' \<and>
   floor_match (lower ''flat under 5000 above 1000'') = Some ''1000'' \<and>
   filter_of_query ''flat under 5000 above 1000'' [] =
     Inr [(''price'', PDict [(''$lte'', PInt 5000)])]"
  by code_simp

text \<open>
  Claim C6, amended. The ceiling and the floor are alternatives, the ceiling first:
  when the lowercased query contains \<open>under\<close> or \<open>below\<close>, the price constraint is
  \<open>price <= amount\<close> if the ceiling pattern matches and \<open>int\<close> converts its digits (at
  most 4300 of them), and is absent otherwise; the floor \<open>price >= amount\<close> is extracted,
  on the same conditions, only when neither word occurs; the filter never holds both.
\<close>

theorem price_bounds_exclusive:
  "\<exists>f. filter_of_query q locs = Inr f \<and>
     map_of f ''price'' =
       (if sublist ''under'' (lower q) \<or> sublist ''below'' (lower q) then
          (case converted (ceiling_match (lower q)) of
             Some amount \<Rightarrow> Some (PDict [(''$lte'', PInt amount)])
           | None \<Rightarrow> None)
        else if sublist ''above'' (lower q) \<or> sublist ''over'' (lower q) then
          (case converted (floor_match (lower q)) of
             Some amount \<Rightarrow> Some (PDict [(''$gte'', PInt amount)])
           | None \<Rightarrow> None)
        else None)"
  by (simp add: filter_of_query_total map_of_amenities_step map_of_price_step
      map_of_location_step map_of_bhk split: option.splits)

text \<open>
  The query \<open>flat under 99...9\<close> with the 4301 digits of \<open>long_amount\<close>: the ceiling
  pattern matches all of them.
\<close>

lemma lower_long_query:
  "lower (''flat under '' @ long_amount) = ''flat under '' @ long_amount"
proof -
  have "lower ''flat under '' = ''flat under ''" "lower_char (CHR ''9'') = CHR ''9''"
    by code_simp+
  then show ?thesis
    by (simp add: lower_def long_amount_def)
qed

lemma sublist_long_query: "sublist ''under'' (''flat under '' @ long_amount)"
proof -
  have "sublist ''under'' ''flat under ''"
    by code_simp
  moreover have "sublist ''flat under '' (''flat under '' @ long_amount)"
    by (rule sublist_append_rightI)
  ultimately show ?thesis
    by (rule sublist_order.order_trans)
qed

lemma ceiling_match_long_query:
  "ceiling_match (''flat under '' @ long_amount) = Some long_amount"
proof -
  have d: "is_digit (CHR ''9'')" and s: "is_space (CHR '' '')"
    by (simp_all add: is_digit_def is_space_def)
  have t: "takeWhile is_digit long_amount = long_amount" "long_amount \<noteq> []"
    using d by (simp_all add: long_amount_def takeWhile_replicate)
  have "match_amount (CHR '' '' # long_amount) = Some long_amount"
    by (simp add: match_amount_def Let_def s t)
  then have "match_keyword_amount [''under'', ''below''] (''under '' @ long_amount)
      = Some long_amount"
    by simp
  then show ?thesis
    by (simp add: ceiling_match_def)
qed

theorem price_bounds_exclusive_witness:
  "(\<exists>f. filter_of_query ''flat under 5000 above 1000'' [] = Inr f \<and>
      map_of f ''price'' = Some (PDict [(''$lte'', PInt 5000)])) \<and>
   (\<exists>f. filter_of_query ''flat above 1000'' [] = Inr f \<and>
      map_of f ''price'' = Some (PDict [(''$gte'', PInt 1000)])) \<and>
   (\<exists>f. filter_of_query (''flat under '' @ long_amount) [] = Inr f \<and>
      map_of f ''price'' = None)"
proof -
  have u1: "sublist ''under'' (lower ''flat under 5000 above 1000'')"
    by code_simp
  have c1: "ceiling_match (lower ''flat under 5000 above 1000'') = Some ''5000''"
    by code_simp
  have v1: "digits_value ''5000'' = 5000"
    by code_simp
  have u2: "\<not> (sublist ''under'' (lower ''flat above 1000'') \<or>
      sublist ''below'' (lower ''flat above 1000''))"
    by code_simp
  have a2: "sublist ''above'' (lower ''flat above 1000'')"
    by code_simp
  have c2: "floor_match (lower ''flat above 1000'') = Some ''1000''"
    by code_simp
  have v2: "digits_value ''1000'' = 1000"
    by code_simp
  have k1: "converted (ceiling_match (lower ''flat under 5000 above 1000'')) = Some 5000"
    by (simp add: c1 v1 converted_def max_str_digits_def)
  have k2: "converted (floor_match (lower ''flat above 1000'')) = Some 1000"
    by (simp add: c2 v2 converted_def max_str_digits_def)
  have u3: "sublist ''under'' (lower (''flat under '' @ long_amount))"
    by (simp only: lower_long_query sublist_long_query)
  have "converted (Some long_amount) = None"
    by (simp add: converted_def max_str_digits_def long_amount_def)
  then have k3: "converted (ceiling_match (lower (''flat under '' @ long_amount))) = None"
    by (simp only: lower_long_query ceiling_match_long_query)
  show ?thesis
    using price_bounds_exclusive [of "''flat under 5000 above 1000''" "[]"]
      price_bounds_exclusive [of "''flat above 1000''" "[]"]
      price_bounds_exclusive [of "''flat under '' @ long_amount" "[]"]
      u1 k1 u2 a2 k2 u3 k3
    by simp
qed

text \<open>
  Claim C7. Filter extraction never raises: for every query the filter is returned;
  when a price trigger word is there and the number pattern after it does not match,
  the filter has no price constraint, and the bedroom, location and amenity constraints
  are extracted all the same.
\<close>

theorem filter_extraction_never_raises:
  "\<exists>f. filter_of_query q locs = Inr f \<and>
     ((sublist ''under'' (lower q) \<or> sublist ''below'' (lower q)) \<and>
        ceiling_match (lower q) = None \<longrightarrow> map_of f ''price'' = None) \<and>
     (\<not> (sublist ''under'' (lower q) \<or> sublist ''below'' (lower q)) \<and>
      (sublist ''above'' (lower q) \<or> sublist ''over'' (lower q)) \<and>
        floor_match (lower q) = None \<longrightarrow> map_of f ''price'' = None) \<and>
     map_of f ''bedrooms'' =
       map_option (\<lambda>d. PInt (digits_value d)) (re_search match_bhk (lower q)) \<and>
     map_of f ''location'' =
       (let location = extract_location_from_query (lower q) locs
        in if truthy_location location then map_option PStr location else None) \<and>
     map_of f ''amenities'' =
       (if amenities_of_query (lower q) \<noteq> []
        then Some (PDict [(''$all'', PList (amenities_of_query (lower q)))]) else None)"
  by (simp add: filter_of_query_total map_of_amenities_step map_of_price_step
      map_of_price_step_other map_of_location_step map_of_bhk converted_def Let_def
      split: option.splits)

theorem filter_extraction_never_raises_witness:
  "(\<exists>f. filter_of_query ''2 BHK under budget with gym'' [] = Inr f \<and>
      map_of f ''price'' = None \<and> map_of f ''bedrooms'' = Some (PInt 2) \<and>
      map_of f ''amenities'' = Some (PDict [(''$all'', PList [PStr ''Gym''])])) \<and>
   (\<exists>f. filter_of_query ''3bhk over budget'' [] = Inr f \<and>
      map_of f ''price'' = None \<and> map_of f ''bedrooms'' = Some (PInt 3))"
proof -
  have u1: "sublist ''under'' (lower ''2 BHK under budget with gym'')"
    by code_simp
  have c1: "ceiling_match (lower ''2 BHK under budget with gym'') = None"
    by code_simp
  have b1: "map_option (\<lambda>d. PInt (digits_value d))
      (re_search match_bhk (lower ''2 BHK under budget with gym'')) = Some (PInt 2)"
    by code_simp
  have m1: "amenities_of_query (lower ''2 BHK under budget with gym'') = [PStr ''Gym'']"
    by code_simp
  have u2: "\<not> (sublist ''under'' (lower ''3bhk over budget'') \<or>
      sublist ''below'' (lower ''3bhk over budget''))"
    by code_simp
  have a2: "sublist ''over'' (lower ''3bhk over budget'')"
    by code_simp
  have c2: "floor_match (lower ''3bhk over budget'') = None"
    by code_simp
  have b2: "map_option (\<lambda>d. PInt (digits_value d))
      (re_search match_bhk (lower ''3bhk over budget'')) = Some (PInt 3)"
    by code_simp
  show ?thesis
    using filter_extraction_never_raises [of "''2 BHK under budget with gym''" "[]"]
      filter_extraction_never_raises [of "''3bhk over budget''" "[]"]
      u1 c1 b1 m1 u2 a2 c2 b2
    by auto
qed

section \<open>The semantic search\<close>

lemma bind_err_Inr:
  "bind_err r k = Inr v \<longleftrightarrow> (\<exists>x. r = Inr x \<and> k x = Inr v)"
  by (cases r) (simp_all add: bind_err_def)

lemma py_getitem_update:
  "py_getitem (AList.update k v d) k' = (if k' = k then Inr v else py_getitem d k')"
  by (simp add: py_getitem_def update_conv')

lemma semantic_item_Inr:
  assumes "semantic_item other meta score = Inr meta'"
  shows "\<exists>summary. meta' =
      AList.update ''summary'' (PStr summary)
        (AList.update ''similarity_score'' (PFloat (py_round score 4)) meta)"
  using assms by (auto simp: semantic_item_def Let_def bind_err_Inr)

lemma semantic_item_score:
  assumes "semantic_item other meta score = Inr meta'"
  shows "map_of meta' ''similarity_score'' = Some (PFloat (py_round score 4))"
proof -
  from semantic_item_Inr [OF assms] obtain summary where
    "meta' = AList.update ''summary'' (PStr summary)
      (AList.update ''similarity_score'' (PFloat (py_round score 4)) meta)"
    by blast
  then show ?thesis by (simp add: update_conv')
qed

lemma semantic_item_key:
  assumes "semantic_item other meta score = Inr meta'"
  shows "dedup_key meta' = dedup_key meta"
proof -
  from semantic_item_Inr [OF assms] obtain summary where
    "meta' = AList.update ''summary'' (PStr summary)
      (AList.update ''similarity_score'' (PFloat (py_round score 4)) meta)"
    by blast
  then show ?thesis by (simp add: dedup_key_def py_getitem_update)
qed

lemma semantic_loop_picks:
  assumes "semantic_loop other top_k results unique filtered = Inr out"
  shows "\<exists>picked items. subseq picked results \<and> out = filtered @ items \<and>
           list_all2 (emitted other) picked items"
  using assms
proof (induction results arbitrary: unique filtered)
  case Nil
  then have "out = filtered @ []" by simp
  moreover have "subseq [] ([] :: (document \<times> rat) list)" by simp
  moreover have "list_all2 (emitted other) [] []" by simp
  ultimately show ?case by blast
next
  case (Cons r results)
  obtain doc score where r: "r = (doc, score)" by (cases r)
  from Cons.prems obtain key where key: "dedup_key (metadata doc) = Inr key"
    by (auto simp: r bind_err_Inr)
  show ?case
  proof (cases "key \<in> unique")
    case True
    show ?thesis
    proof (cases "top_k \<le> int (length filtered)")
      case True
      with Cons.prems r key \<open>key \<in> unique\<close> have "out = filtered @ []"
        by (simp add: bind_err_def)
      moreover have "subseq [] (r # results)" by simp
      moreover have "list_all2 (emitted other) [] []" by simp
      ultimately show ?thesis by blast
    next
      case False
      with Cons.prems r key \<open>key \<in> unique\<close>
      have "semantic_loop other top_k results unique filtered = Inr out"
        by (simp add: bind_err_def)
      from Cons.IH [OF this] obtain picked items where
        "subseq picked results" "out = filtered @ items" "list_all2 (emitted other) picked items"
        by blast
      moreover from \<open>subseq picked results\<close> have "subseq picked (r # results)"
        by (rule list_emb_Cons)
      ultimately show ?thesis by blast
    qed
  next
    case False
    with Cons.prems r key obtain meta where
      meta: "semantic_item other (metadata doc) score = Inr meta"
      by (auto simp: bind_err_Inr)
    have em: "emitted other r meta"
      using meta by (simp add: emitted_def r)
    show ?thesis
    proof (cases "top_k \<le> int (length (filtered @ [meta]))")
      case True
      with Cons.prems r key meta \<open>key \<notin> unique\<close> have "out = filtered @ [meta]"
        by (simp add: bind_err_def Let_def)
      moreover have "subseq [r] (r # results)" by simp
      moreover have "list_all2 (emitted other) [r] [meta]" using em by simp
      ultimately show ?thesis by blast
    next
      case False
      with Cons.prems r key meta \<open>key \<notin> unique\<close>
      have "semantic_loop other top_k results (insert key unique) (filtered @ [meta]) = Inr out"
        by (simp add: bind_err_def Let_def)
      from Cons.IH [OF this] obtain picked items where
        p: "subseq picked results" "out = (filtered @ [meta]) @ items"
          "list_all2 (emitted other) picked items"
        by blast
      have "subseq (r # picked) (r # results)" using p(1) by simp
      moreover have "out = filtered @ (meta # items)" using p(2) by simp
      moreover have "list_all2 (emitted other) (r # picked) (meta # items)"
        using em p(3) by simp
      ultimately show ?thesis by blast
    qed
  qed
qed

lemma semantic_loop_length:
  assumes "semantic_loop other top_k results unique filtered = Inr out"
    and "int (length filtered) < top_k"
  shows "int (length out) \<le> top_k"
  using assms
proof (induction results arbitrary: unique filtered)
  case Nil
  then show ?case by simp
next
  case (Cons r results)
  obtain doc score where r: "r = (doc, score)" by (cases r)
  from Cons.prems(1) obtain key where key: "dedup_key (metadata doc) = Inr key"
    by (auto simp: r bind_err_Inr)
  show ?case
  proof (cases "key \<in> unique")
    case True
    with Cons.prems r key
    have "semantic_loop other top_k results unique filtered = Inr out"
      by (simp add: bind_err_def)
    then show ?thesis using Cons.prems(2) by (rule Cons.IH)
  next
    case False
    with Cons.prems(1) r key obtain meta where
      meta: "semantic_item other (metadata doc) score = Inr meta"
      by (auto simp: bind_err_Inr)
    show ?thesis
    proof (cases "top_k \<le> int (length (filtered @ [meta]))")
      case True
      with Cons.prems(1) r key meta \<open>key \<notin> unique\<close> have "out = filtered @ [meta]"
        by (simp add: bind_err_def Let_def)
      then show ?thesis using Cons.prems(2) by simp
    next
      case False
      with Cons.prems(1) r key meta \<open>key \<notin> unique\<close>
      have "semantic_loop other top_k results (insert key unique) (filtered @ [meta]) = Inr out"
        by (simp add: bind_err_def Let_def)
      moreover have "int (length (filtered @ [meta])) < top_k"
        using False by simp
      ultimately show ?thesis by (rule Cons.IH)
    qed
  qed
qed

lemma keyed_in_mono: "keyed_in unique meta \<Longrightarrow> keyed_in (insert k unique) meta"
  by (auto simp: keyed_in_def split: sum.splits)

lemma semantic_loop_distinct:
  assumes "semantic_loop other top_k results unique filtered = Inr out"
    and "distinct (map dedup_key filtered)"
    and "list_all (keyed_in unique) filtered"
  shows "distinct (map dedup_key out) \<and> list_all (keyed_in UNIV) out"
  using assms
proof (induction results arbitrary: unique filtered)
  case Nil
  then have "out = filtered" by simp
  moreover have "list_all (keyed_in UNIV) filtered"
    using Nil.prems(3) by (auto simp: list_all_iff keyed_in_def split: sum.splits)
  ultimately show ?case using Nil.prems(2) by simp
next
  case (Cons r results)
  obtain doc score where r: "r = (doc, score)" by (cases r)
  from Cons.prems(1) obtain key where key: "dedup_key (metadata doc) = Inr key"
    by (auto simp: r bind_err_Inr)
  have univ: "list_all (keyed_in UNIV) xs" if "list_all (keyed_in u) xs" for u xs
    using that by (auto simp: list_all_iff keyed_in_def split: sum.splits)
  show ?case
  proof (cases "key \<in> unique")
    case True
    show ?thesis
    proof (cases "top_k \<le> int (length filtered)")
      case True
      with Cons.prems(1) r key \<open>key \<in> unique\<close> have "out = filtered"
        by (simp add: bind_err_def)
      then show ?thesis using Cons.prems(2) univ [OF Cons.prems(3)] by simp
    next
      case False
      with Cons.prems(1) r key \<open>key \<in> unique\<close>
      have "semantic_loop other top_k results unique filtered = Inr out"
        by (simp add: bind_err_def)
      then show ?thesis using Cons.prems(2,3) by (rule Cons.IH)
    qed
  next
    case False
    with Cons.prems(1) r key obtain meta where
      meta: "semantic_item other (metadata doc) score = Inr meta"
      by (auto simp: bind_err_Inr)
    have mk: "dedup_key meta = Inr key"
      using semantic_item_key [OF meta] key by simp
    have fresh: "dedup_key meta \<notin> set (map dedup_key filtered)"
    proof
      assume "dedup_key meta \<in> set (map dedup_key filtered)"
      then obtain m where "m \<in> set filtered" "dedup_key m = Inr key"
        using mk by auto
      moreover from this Cons.prems(3) have "keyed_in unique m"
        by (simp add: list_all_iff)
      ultimately have "key \<in> unique" by (simp add: keyed_in_def)
      with False show False by simp
    qed
    have d': "distinct (map dedup_key (filtered @ [meta]))"
      using Cons.prems(2) fresh by simp
    have k': "list_all (keyed_in (insert key unique)) (filtered @ [meta])"
    proof -
      have "list_all (keyed_in (insert key unique)) filtered"
        using Cons.prems(3) by (simp add: list_all_iff keyed_in_mono)
      moreover have "keyed_in (insert key unique) meta"
        using mk by (simp add: keyed_in_def)
      ultimately show ?thesis by simp
    qed
    show ?thesis
    proof (cases "top_k \<le> int (length (filtered @ [meta]))")
      case True
      with Cons.prems(1) r key meta \<open>key \<notin> unique\<close> have "out = filtered @ [meta]"
        by (simp add: bind_err_def Let_def)
      then show ?thesis using d' univ [OF k'] by simp
    next
      case False
      with Cons.prems(1) r key meta \<open>key \<notin> unique\<close>
      have "semantic_loop other top_k results (insert key unique) (filtered @ [meta]) = Inr out"
        by (simp add: bind_err_def Let_def)
      then show ?thesis using d' k' by (rule Cons.IH)
    qed
  qed
qed

lemma round_half_even_close: "\<bar>x - of_int (round_half_even x)\<bar> \<le> 1 / 2"
proof -
  have "of_int \<lfloor>x\<rfloor> \<le> x" "x < of_int \<lfloor>x\<rfloor> + 1"
    by linarith+
  then show ?thesis
    by (auto simp: round_half_even_def Let_def)
qed

lemma round_half_even_mono:
  assumes "x \<le> y"
  shows "round_half_even x \<le> round_half_even y"
proof (rule ccontr)
  assume "\<not> round_half_even x \<le> round_half_even y"
  then have "round_half_even y + 1 \<le> round_half_even x" by simp
  then have lt: "(of_int (round_half_even y) :: rat) + 1 \<le> of_int (round_half_even x)"
    by (metis of_int_1 of_int_add of_int_le_iff)
  have "of_int (round_half_even x) - 1 / 2 \<le> x"
    using round_half_even_close [of x] by linarith
  moreover have "y \<le> of_int (round_half_even y) + 1 / 2"
    using round_half_even_close [of y] by linarith
  ultimately have "x = y"
    using lt assms by linarith
  with \<open>\<not> round_half_even x \<le> round_half_even y\<close> show False by simp
qed

lemma py_round_mono: "x \<le> y \<Longrightarrow> py_round x n \<le> py_round y n"
proof -
  assume "x \<le> y"
  then have "x * 10 ^ n \<le> y * 10 ^ n"
    by (simp add: mult_right_mono)
  then have "round_half_even (x * 10 ^ n) \<le> round_half_even (y * 10 ^ n)"
    by (rule round_half_even_mono)
  then show ?thesis
    by (simp add: py_round_def divide_right_mono)
qed

lemma py_round_close: "\<bar>py_round x n - x\<bar> \<le> 1 / (2 * 10 ^ n)"
proof -
  have p: "(0::rat) < 10 ^ n" by simp
  have "\<bar>x * 10 ^ n - of_int (round_half_even (x * 10 ^ n))\<bar> \<le> 1 / 2"
    by (rule round_half_even_close)
  then have "\<bar>x * 10 ^ n - of_int (round_half_even (x * 10 ^ n))\<bar> / 10 ^ n \<le> (1 / 2) / 10 ^ n"
    using p by (intro divide_right_mono) simp_all
  moreover have "\<bar>x * 10 ^ n - of_int (round_half_even (x * 10 ^ n))\<bar> / 10 ^ n
      = \<bar>py_round x n - x\<bar>"
  proof -
    have "(x * 10 ^ n - of_int (round_half_even (x * 10 ^ n))) / 10 ^ n = x - py_round x n"
      using p by (simp add: py_round_def diff_divide_distrib)
    then have "\<bar>x * 10 ^ n - of_int (round_half_even (x * 10 ^ n))\<bar> / \<bar>(10::rat) ^ n\<bar>
        = \<bar>x - py_round x n\<bar>"
      by (metis abs_divide)
    then show ?thesis using p by (simp add: abs_minus_commute)
  qed
  ultimately show ?thesis by simp
qed

lemma py_getitem_has_key: "has_key d k \<Longrightarrow> py_getitem d k = Inr (py_get d k dflt)"
  by (auto simp: has_key_def py_getitem_def py_get_def)

lemma well_formed_dedup_key:
  assumes "well_formed_meta meta"
  shows "\<exists>key. dedup_key meta = Inr key"
proof -
  have k: "has_key meta ''bedrooms''" "has_key meta ''location''"
    "has_key meta ''price''" "has_key meta ''area_sqft''"
    using assms by (simp_all add: well_formed_meta_def)
  have h: "hashable (py_get meta ''bedrooms'' PNone)" "hashable (py_get meta ''location'' PNone)"
    "hashable (py_get meta ''price'' PNone)" "hashable (py_get meta ''area_sqft'' PNone)"
    using assms by (simp_all add: well_formed_meta_def)
  show ?thesis
    unfolding dedup_key_def
    by (simp add: py_getitem_has_key [OF k(1), of PNone] py_getitem_has_key [OF k(2), of PNone]
        py_getitem_has_key [OF k(3), of PNone] py_getitem_has_key [OF k(4), of PNone]
        bind_err_def h)
qed

lemma has_key_update: "has_key (AList.update k v d) k' = (k' = k \<or> has_key d k')"
  by (simp add: has_key_def update_conv')

lemma well_formed_semantic_item:
  assumes "well_formed_meta meta"
  shows "\<exists>meta'. semantic_item other meta score = Inr meta'"
proof -
  let ?m = "AList.update ''similarity_score'' (PFloat (py_round score 4)) meta"
  have k: "has_key ?m ''bedrooms''" "has_key ?m ''location''"
    "has_key ?m ''price''" "has_key ?m ''area_sqft''" "has_key ?m ''amenities''"
    using assms by (simp_all add: well_formed_meta_def has_key_update)
  show ?thesis
    unfolding semantic_item_def Let_def
    by (simp add: py_getitem_has_key [OF k(1), of PNone] py_getitem_has_key [OF k(2), of PNone]
        py_getitem_has_key [OF k(3), of PNone] py_getitem_has_key [OF k(4), of PNone]
        py_getitem_has_key [OF k(5), of PNone] bind_err_def)
qed

lemma semantic_loop_total:
  assumes "list_all (\<lambda>(doc, score). well_formed_meta (metadata doc)) results"
  shows "\<exists>out. semantic_loop other top_k results unique filtered = Inr out"
  using assms
proof (induction results arbitrary: unique filtered)
  case Nil
  then show ?case by simp
next
  case (Cons r results)
  obtain doc score where r: "r = (doc, score)" by (cases r)
  have wf: "well_formed_meta (metadata doc)"
    using Cons.prems by (simp add: r)
  have rest: "list_all (\<lambda>(doc, score). well_formed_meta (metadata doc)) results"
    using Cons.prems by simp
  from well_formed_dedup_key [OF wf] obtain key where
    key: "dedup_key (metadata doc) = Inr key" by blast
  from well_formed_semantic_item [OF wf] obtain meta where
    meta: "semantic_item other (metadata doc) score = Inr meta" by blast
  show ?case
  proof (cases "key \<in> unique")
    case True
    then show ?thesis
      using Cons.IH [OF rest, of unique filtered] by (simp add: r key bind_err_def)
  next
    case False
    then show ?thesis
      using Cons.IH [OF rest, of "insert key unique" "filtered @ [meta]"]
      by (simp add: r key meta bind_err_def Let_def)
  qed
qed

lemma emitted_scores:
  "list_all2 (emitted other) picked out \<Longrightarrow>
   map (\<lambda>m. map_of m ''similarity_score'') out =
     map (\<lambda>(doc, score). Some (PFloat (py_round score 4))) picked"
proof (induction picked out rule: list_all2_induct)
  case Nil
  then show ?case by simp
next
  case (Cons r picked m out)
  obtain doc score where r: "r = (doc, score)" by (cases r)
  have "semantic_item other (metadata doc) score = Inr m"
    using Cons.hyps(1) by (simp add: emitted_def r)
  then have "map_of m ''similarity_score'' = Some (PFloat (py_round score 4))"
    by (rule semantic_item_score)
  then show ?case using Cons.IH by (simp add: r)
qed

lemma subseq_sorted:
  "subseq xs ys \<Longrightarrow> sorted ys \<Longrightarrow> sorted (xs :: rat list)"
proof (induction rule: list_emb.induct)
  case (list_emb_Nil ys)
  then show ?case by simp
next
  case (list_emb_Cons xs ys y)
  then show ?case by simp
next
  case (list_emb_Cons2 x y xs ys)
  have "set xs \<subseteq> set ys"
    using list_emb_Cons2.hyps(2) by (auto elim: list_emb_set)
  then show ?case
    using list_emb_Cons2 by auto
qed

lemma sorted_rounded:
  "sorted (map snd picked) \<Longrightarrow> sorted (map (\<lambda>(doc, score). py_round score 4) picked)"
proof (induction picked)
  case Nil
  then show ?case by simp
next
  case (Cons r picked)
  then show ?case
    by (auto simp: py_round_mono split: prod.splits)
qed

text \<open>
  Claim C4. For every query and every sequence of documents and distances that the
  index returns for \<open>k = top_k * 2\<close> (at most \<open>k\<close> pairs, of well-formed documents),
  \<open>chromadb_semantic_search\<close> returns at most \<open>top_k\<close> items, their keys are pairwise
  different, the items are made of a subsequence of the index's sequence in its order
  (so ascending in distance when the index's sequence is), and each carries its distance
  rounded to 4 decimal places.
\<close>

theorem semantic_search_dedup_capped:
  assumes "results = similarity_search_with_score c query (top_k * 2)"
    and "int (length results) \<le> top_k * 2"
    and "list_all (\<lambda>(doc, score). well_formed_meta (metadata doc)) results"
  shows "\<exists>out picked.
      chromadb_semantic_search c query top_k = Inr out \<and>
      int (length out) \<le> top_k \<and>
      distinct (map dedup_key out) \<and>
      list_all (\<lambda>m. \<not> isl (dedup_key m)) out \<and>
      subseq picked results \<and>
      list_all2 (emitted (str_other c)) picked out \<and>
      map (\<lambda>m. map_of m ''similarity_score'') out =
        map (\<lambda>(doc, score). Some (PFloat (py_round score 4))) picked \<and>
      (sorted (map snd results) \<longrightarrow>
         sorted (map (\<lambda>(doc, score). py_round score 4) picked))"
proof -
  from semantic_loop_total [OF assms(3)] obtain out where
    out: "semantic_loop (str_other c) top_k results {} [] = Inr out"
    by blast
  then have run: "chromadb_semantic_search c query top_k = Inr out"
    by (simp add: chromadb_semantic_search_def assms(1))
  have len: "int (length out) \<le> top_k"
  proof (cases "0 < top_k")
    case True
    then have "int (length ([] :: pydict list)) < top_k" by simp
    with out show ?thesis by (rule semantic_loop_length)
  next
    case False
    with assms(2) have "int (length results) \<le> 0" by linarith
    then have e: "results = []" by simp
    with out have "out = []" by simp
    moreover from e assms(2) have "0 \<le> top_k" by simp
    ultimately show ?thesis by simp
  qed
  have "distinct (map dedup_key ([] :: pydict list))" "list_all (keyed_in {}) []"
    by simp_all
  with out have dk: "distinct (map dedup_key out) \<and> list_all (keyed_in UNIV) out"
    by (rule semantic_loop_distinct)
  then have keys: "list_all (\<lambda>m. \<not> isl (dedup_key m)) out"
    by (auto simp: list_all_iff keyed_in_def isl_def split: sum.splits)
  from semantic_loop_picks [OF out] obtain picked where
    picked: "subseq picked results" "list_all2 (emitted (str_other c)) picked out"
    by auto
  have scores: "map (\<lambda>m. map_of m ''similarity_score'') out =
      map (\<lambda>(doc, score). Some (PFloat (py_round score 4))) picked"
    using picked(2) by (rule emitted_scores)
  have sorted: "sorted (map (\<lambda>(doc, score). py_round score 4) picked)"
    if "sorted (map snd results)"
  proof -
    have "subseq (map snd picked) (map snd results)"
      using picked(1) by (rule subseq_map)
    then have "sorted (map snd picked)"
      using that by (rule subseq_sorted)
    then show ?thesis by (rule sorted_rounded)
  qed
  from run len dk keys picked scores sorted show ?thesis by blast
qed

theorem semantic_search_dedup_capped_witness:
  "[(demo_document, 2469 / 20000), (demo_document, 3 / 10)] =
     similarity_search_with_score demo_store ''nice flat'' (5 * 2) \<and>
   int (length [(demo_document, 2469 / 20000 :: rat), (demo_document, 3 / 10)]) \<le> 5 * 2 \<and>
   list_all (\<lambda>(doc, score). well_formed_meta (metadata doc))
     [(demo_document, 2469 / 20000 :: rat), (demo_document, 3 / 10)] \<and>
   sorted (map snd [(demo_document, 2469 / 20000 :: rat), (demo_document, 3 / 10)]) \<and>
   (\<exists>out. chromadb_semantic_search demo_store ''nice flat'' 5 = Inr out \<and>
      int (length out) \<le> 5 \<and> distinct (map dedup_key out))"
proof -
  let ?results = "[(demo_document, 2469 / 20000 :: rat), (demo_document, 3 / 10)]"
  have h1: "?results = similarity_search_with_score demo_store ''nice flat'' (5 * 2)"
    by (simp add: demo_store_def)
  have h2: "int (length ?results) \<le> 5 * 2"
    by simp
  have h3: "list_all (\<lambda>(doc, score). well_formed_meta (metadata doc)) ?results"
    by (simp add: demo_document_def well_formed_meta_def has_key_def py_get_def)
  have h4: "sorted (map snd ?results)"
    by simp
  show ?thesis
    using h1 h2 h3 h4 semantic_search_dedup_capped [OF h1 h2 h3] by blast
qed

section \<open>The response envelope\<close>

lemma py_round_zero: "py_round 0 n = 0"
  by (simp add: py_round_def round_half_even_def)

lemma result_item_no_score:
  "\<not> has_key m ''similarity_score'' \<Longrightarrow>
   result_item m =
     Inr [(''summary'', py_get m ''summary'' (PStr ''No summary available.'')),
          (''similarity_score'', PFloat 0)]"
  by (simp add: result_item_def has_key_def py_get_def bind_err_def py_round_zero)

lemma result_item_has_score:
  "result_item m = Inr r \<Longrightarrow> has_key r ''similarity_score''"
  by (auto simp: result_item_def bind_err_Inr has_key_def)

lemma result_items_have_score:
  "result_items ms = Inr rs \<Longrightarrow> list_all (\<lambda>r. has_key r ''similarity_score'') rs \<and>
     length rs = length ms"
proof (induction ms arbitrary: rs)
  case Nil
  then show ?case by simp
next
  case (Cons m ms)
  from Cons.prems obtain r rs' where
    r: "result_item m = Inr r" and rs': "result_items ms = Inr rs'" and e: "rs = r # rs'"
    by (auto simp: bind_err_Inr)
  show ?case
    using result_item_has_score [OF r] Cons.IH [OF rs'] e by simp
qed

text \<open>
  Claim C2, amended. Every result item of a \<open>success\<close> envelope carries a
  \<open>similarity_score\<close> field, whichever strategy served the query: the field is written
  for every match, with the default \<open>0\<close> when the match has no score.
\<close>

theorem every_result_item_carries_score:
  assumes "get_chat_response c q = Inr env"
    and "py_get env ''status'' PNone = PStr ''success''"
  shows "\<exists>results. map_of env ''results'' = Some (PList (map PDict results)) \<and>
           results \<noteq> [] \<and> list_all (\<lambda>r. has_key r ''similarity_score'') results"
proof -
  from assms(1) obtain matches where
    m: "handle_user_query c q 5 = Inr matches"
    by (auto simp: get_chat_response_def bind_err_Inr)
  show ?thesis
  proof (cases matches)
    case Nil
    with assms m show ?thesis
      by (auto simp: get_chat_response_def bind_err_def py_get_def)
  next
    case (Cons first rest)
    show ?thesis
    proof (cases "py_get first ''type'' PNone = PStr ''greeting''")
      case True
      with assms m Cons show ?thesis
        by (auto simp: get_chat_response_def bind_err_def py_get_def split: sum.splits)
    next
      case False
      with assms(1) m Cons obtain results where
        r: "result_items matches = Inr results"
        and e: "env = [(''status'', PStr ''success''), (''query'', PStr q),
                       (''results'', PList (map PDict results))]"
        by (auto simp: get_chat_response_def bind_err_def split: sum.splits)
      from result_items_have_score [OF r] Cons
      have "list_all (\<lambda>r. has_key r ''similarity_score'') results" "results \<noteq> []"
        by auto
      moreover from e have "map_of env ''results'' = Some (PList (map PDict results))"
        by simp
      ultimately show ?thesis by blast
    qed
  qed
qed

lemma enrich_item_shape:
  assumes "enrich_item other item = Inr e"
  shows "\<exists>summary. e = [(''summary'', PStr summary), (''details'', PDict (item_details item))]"
  using assms
  by (auto simp: enrich_item_def bind_err_Inr Let_def split: if_splits)

lemma enrich_results_shape:
  assumes "enrich_results other rs = Inr es"
  shows "map (\<lambda>e. py_get e ''details'' PNone) es = map (\<lambda>r. PDict (item_details r)) rs \<and>
         list_all (\<lambda>e. \<not> has_key e ''similarity_score'' \<and> \<not> has_key e ''type'') es"
  using assms
proof (induction rs arbitrary: es)
  case Nil
  then show ?case by simp
next
  case (Cons r rs)
  from Cons.prems obtain e es' where
    e: "enrich_item other r = Inr e" and es': "enrich_results other rs = Inr es'"
    and eq: "es = e # es'"
    by (auto simp: bind_err_Inr)
  from enrich_item_shape [OF e] obtain summary where
    "e = [(''summary'', PStr summary), (''details'', PDict (item_details r))]"
    by blast
  then have "py_get e ''details'' PNone = PDict (item_details r)"
    "\<not> has_key e ''similarity_score''" "\<not> has_key e ''type''"
    by (simp_all add: py_get_def has_key_def)
  with Cons.IH [OF es'] eq show ?case by simp
qed

lemma header_text_nonempty: "header_text intent location \<noteq> []"
  by (simp add: header_text_def Let_def)

lemma handle_user_query_cases:
  assumes "handle_user_query c q k = Inr out"
    and "classify_user_query q (get_unique_locations c) \<noteq> ''greeting''"
  shows "\<exists>rs es.
      retrieve c (classify_user_query q (get_unique_locations c)) q (get_unique_locations c) k
        = Inr rs \<and>
      enrich_results (str_other c) rs = Inr es \<and>
      (if es = [] then out = [no_results_item]
       else out = header_item (header_text (classify_user_query q (get_unique_locations c))
                    (extract_location_from_query q (get_unique_locations c))) # es)"
proof -
  let ?locs = "get_unique_locations c"
  let ?intent = "classify_user_query q ?locs"
  let ?header = "header_text ?intent (extract_location_from_query q ?locs)"
  have "handle_user_query c q k =
      bind_err (retrieve c ?intent q ?locs k) (\<lambda>results.
        bind_err (enrich_results (str_other c) results) (\<lambda>es.
          if es = [] then Inr [no_results_item] else Inr (header_item ?header # es)))"
    using assms(2)
    by (simp add: handle_user_query_def Let_def header_text_nonempty cong: if_cong)
  with assms(1) obtain rs where
    rs: "retrieve c ?intent q ?locs k = Inr rs"
    and 1: "bind_err (enrich_results (str_other c) rs) (\<lambda>es.
          if es = [] then Inr [no_results_item] else Inr (header_item ?header # es)) = Inr out"
    by (auto simp: bind_err_Inr)
  from 1 obtain es where
    es: "enrich_results (str_other c) rs = Inr es"
    and 2: "(if es = [] then Inr [no_results_item] else Inr (header_item ?header # es))
        = (Inr out :: py_error + pydict list)"
    by (auto simp: bind_err_Inr)
  from 2 have "if es = [] then out = [no_results_item] else out = header_item ?header # es"
    by (cases "es = []") auto
  with rs es show ?thesis by blast
qed

lemma enrich_results_Nil_iff: "enrich_results other rs = Inr [] \<Longrightarrow> rs = []"
  by (cases rs) (auto simp: bind_err_Inr)

lemma handle_user_query_no_results:
  assumes "classify_user_query q (get_unique_locations c) \<noteq> ''greeting''"
    and "retrieve c (classify_user_query q (get_unique_locations c)) q
           (get_unique_locations c) k = Inr []"
  shows "handle_user_query c q k = Inr [no_results_item]"
  using assms by (simp add: handle_user_query_def Let_def bind_err_def)

lemma no_results_item_fields:
  "py_get no_results_item ''type'' PNone = PStr ''no_results''"
  "\<not> has_key no_results_item ''similarity_score''"
  by (simp_all add: no_results_item_def py_get_def has_key_def)

lemma response_of_no_results_item:
  assumes "handle_user_query c q 5 = Inr [no_results_item]"
  shows "get_chat_response c q =
     Inr [(''status'', PStr ''success''),
          (''query'', PStr q),
          (''results'',
           PList [PDict [(''summary'', py_get no_results_item ''summary''
                                         (PStr ''No summary available.'')),
                         (''similarity_score'', PFloat 0)]])]"
proof -
  have "result_items [no_results_item] =
      Inr [[(''summary'', py_get no_results_item ''summary'' (PStr ''No summary available.'')),
            (''similarity_score'', PFloat 0)]]"
    by (simp add: result_item_no_score [OF no_results_item_fields(2)] bind_err_def)
  then show ?thesis
    by (simp add: get_chat_response_def assms bind_err_def no_results_item_fields(1))
qed

lemma result_items_no_score:
  "list_all (\<lambda>m. \<not> has_key m ''similarity_score'') ms \<Longrightarrow>
   result_items ms = Inr (map zero_scored ms)"
  by (induction ms) (simp_all add: result_item_no_score bind_err_def zero_scored_def)

lemma header_item_fields:
  "py_get (header_item h) ''type'' PNone = PStr ''header''"
  "\<not> has_key (header_item h) ''similarity_score''"
  by (simp_all add: header_item_def py_get_def has_key_def)

lemma non_greeting_response:
  assumes "handle_user_query c q 5 = Inr out"
    and "classify_user_query q (get_unique_locations c) \<noteq> ''greeting''"
  shows "get_chat_response c q =
     Inr [(''status'', PStr ''success''),
          (''query'', PStr q),
          (''results'', PList (map PDict (map zero_scored out)))]"
proof -
  from handle_user_query_cases [OF assms] obtain rs es where
    es: "enrich_results (str_other c) rs = Inr es"
    and out: "if es = [] then out = [no_results_item]
       else out = header_item (header_text (classify_user_query q (get_unique_locations c))
                    (extract_location_from_query q (get_unique_locations c))) # es"
    by blast
  have es_ok: "list_all (\<lambda>e. \<not> has_key e ''similarity_score'') es"
    using enrich_results_shape [OF es] by (simp add: list_all_iff)
  obtain first rest where fr: "out = first # rest"
    and ty: "py_get first ''type'' PNone \<noteq> PStr ''greeting''"
    and ok: "list_all (\<lambda>m. \<not> has_key m ''similarity_score'') out"
  proof (cases "es = []")
    case True
    with out have "out = [no_results_item]" by simp
    then show ?thesis
      using that [of no_results_item "[]"] no_results_item_fields by simp
  next
    case False
    with out obtain h where "out = header_item h # es" by simp
    then show ?thesis
      using that [of "header_item h" es] header_item_fields es_ok by simp
  qed
  have "result_items out = Inr (map zero_scored out)"
    using ok by (rule result_items_no_score)
  then show ?thesis
    using ty by (simp add: get_chat_response_def assms(1) bind_err_def fr)
qed

lemma create_document_metadata:
  assumes "create_document other a = Inr doc"
  shows "\<exists>joined city.
      py_join '', '' (py_get a ''amenities'' (PList [])) = Inr joined \<and>
      metadata doc =
        [(''bedrooms'', py_get a ''bedrooms'' (PStr ''?'')),
         (''location'', py_get a ''location'' (PStr ''an unknown location'')),
         (''price'', py_get a ''price'' (PStr ''a negotiable price'')),
         (''area_sqft'', py_get a ''area_sqft'' (PStr ''unknown area'')),
         (''amenities'', PStr joined),
         (''city'', PStr city)]"
proof -
  from assms obtain joined where
    j: "py_join '', '' (py_get a ''amenities'' (PList [])) = Inr joined"
    by (auto simp: create_document_def bind_err_Inr)
  with assms obtain city where
    "city_of (py_get a ''location'' (PStr ''an unknown location'')) = Inr city"
    by (auto simp: create_document_def bind_err_Inr Let_def)
  with assms j have "metadata doc =
        [(''bedrooms'', py_get a ''bedrooms'' (PStr ''?'')),
         (''location'', py_get a ''location'' (PStr ''an unknown location'')),
         (''price'', py_get a ''price'' (PStr ''a negotiable price'')),
         (''area_sqft'', py_get a ''area_sqft'' (PStr ''unknown area'')),
         (''amenities'', PStr joined),
         (''city'', PStr city)]"
    by (auto simp: create_document_def bind_err_def Let_def)
  with j show ?thesis by blast
qed

lemma py_get_update:
  "py_get (AList.update k v d) k' dflt = (if k' = k then v else py_get d k' dflt)"
  by (simp add: py_get_def update_conv')

lemma semantic_item_details:
  assumes "semantic_item other meta score = Inr meta'"
  shows "item_details meta' = item_details meta"
proof -
  from semantic_item_Inr [OF assms] obtain summary where
    "meta' = AList.update ''summary'' (PStr summary)
      (AList.update ''similarity_score'' (PFloat (py_round score 4)) meta)"
    by blast
  then show ?thesis by (simp add: item_details_def py_get_update)
qed

lemma semantic_details_of_record:
  assumes "create_document other a = Inr doc"
    and "semantic_item other (metadata doc) score = Inr meta"
  shows "\<exists>joined.
      py_join '', '' (py_get a ''amenities'' (PList [])) = Inr joined \<and>
      item_details meta =
        [(''bedrooms'', py_get a ''bedrooms'' (PStr ''?'')),
         (''location'', py_get a ''location'' (PStr ''an unknown location'')),
         (''price'', py_get a ''price'' (PStr ''a negotiable price'')),
         (''area_sqft'', py_get a ''area_sqft'' (PStr ''unknown area'')),
         (''amenities'', PStr joined)]"
proof -
  from create_document_metadata [OF assms(1)] obtain joined city where
    j: "py_join '', '' (py_get a ''amenities'' (PList [])) = Inr joined"
    and m: "metadata doc =
        [(''bedrooms'', py_get a ''bedrooms'' (PStr ''?'')),
         (''location'', py_get a ''location'' (PStr ''an unknown location'')),
         (''price'', py_get a ''price'' (PStr ''a negotiable price'')),
         (''area_sqft'', py_get a ''area_sqft'' (PStr ''unknown area'')),
         (''amenities'', PStr joined),
         (''city'', PStr city)]"
    by blast
  have "item_details meta = item_details (metadata doc)"
    using assms(2) by (rule semantic_item_details)
  also have "\<dots> =
        [(''bedrooms'', py_get a ''bedrooms'' (PStr ''?'')),
         (''location'', py_get a ''location'' (PStr ''an unknown location'')),
         (''price'', py_get a ''price'' (PStr ''a negotiable price'')),
         (''area_sqft'', py_get a ''area_sqft'' (PStr ''unknown area'')),
         (''amenities'', PStr joined)]"
    unfolding m by (simp add: item_details_def py_get_def)
  finally show ?thesis using j by blast
qed

lemma handle_user_query_details:
  assumes "handle_user_query c q k = Inr out"
    and "classify_user_query q (get_unique_locations c) \<noteq> ''greeting''"
    and "retrieve c (classify_user_query q (get_unique_locations c)) q
           (get_unique_locations c) k = Inr rs"
    and "rs \<noteq> []"
  shows "map (\<lambda>e. py_get e ''details'' PNone) (tl out) = map (\<lambda>r. PDict (item_details r)) rs"
proof -
  from handle_user_query_cases [OF assms(1,2)] assms(3) obtain es where
    es: "enrich_results (str_other c) rs = Inr es"
    and out: "if es = [] then out = [no_results_item]
       else out = header_item (header_text (classify_user_query q (get_unique_locations c))
                    (extract_location_from_query q (get_unique_locations c))) # es"
    by auto
  have "es \<noteq> []"
    using es assms(4) enrich_results_Nil_iff by blast
  with out have "tl out = es" by simp
  then show ?thesis
    using enrich_results_shape [OF es] by simp
qed

lemma classify_examples:
  "classify_user_query ''nice flat'' [] = ''semantic_search''"
  "classify_user_query ''nice flat'' [''Baner, Pune''] = ''semantic_search''"
  "classify_user_query ''cheapest flat'' [''Baner, Pune''] = ''sort_by_price_asc''"
  by code_simp+

lemma retrieve_empty_store:
  "retrieve empty_store ''semantic_search'' ''nice flat'' [] 5 = Inr []"
  by (simp add: retrieve_def chromadb_semantic_search_def empty_store_def)

lemma retrieve_demo_sort:
  "retrieve demo_store ''sort_by_price_asc'' ''cheapest flat'' [''Baner, Pune''] 5
     = Inr [demo_apartment]"
  by (simp add: retrieve_def demo_store_def)

lemma enrich_demo_apartment: "\<exists>e. enrich_item demo_other demo_apartment = Inr e"
  by (simp add: enrich_item_def amenities_text_def demo_apartment_def py_get_def has_key_def
      bind_err_def Let_def)

text \<open>
  Claim C1 fails on the code. The query below is not a greeting and its retrieval
  returns no records; \<open>handle_user_query\<close> then returns one item of type \<open>no_results\<close>,
  which is not an empty list, so the \<open>no_results\<close> branch of \<open>get_chat_response\<close> is not
  taken: the envelope has status \<open>success\<close> and the apology is its one result.
\<close>

theorem no_results_reported_as_success:
  "classify_user_query ''nice flat'' (get_unique_locations empty_store) = ''semantic_search'' \<and>
   retrieve empty_store ''semantic_search'' ''nice flat'' (get_unique_locations empty_store) 5
     = Inr [] \<and>
   get_chat_response empty_store ''nice flat'' =
     Inr [(''status'', PStr ''success''),
          (''query'', PStr ''nice flat''),
          (''results'',
           PList [PDict [(''summary'', py_get no_results_item ''summary''
                                         (PStr ''No summary available.'')),
                         (''similarity_score'', PFloat 0)]])]"
proof -
  have l: "get_unique_locations empty_store = []"
    by (simp add: empty_store_def)
  have c: "classify_user_query ''nice flat'' (get_unique_locations empty_store)
      = ''semantic_search''"
    by (simp add: l classify_examples)
  have r: "retrieve empty_store ''semantic_search'' ''nice flat''
      (get_unique_locations empty_store) 5 = Inr []"
    by (simp add: l retrieve_empty_store)
  have "handle_user_query empty_store ''nice flat'' 5 = Inr [no_results_item]"
    by (rule handle_user_query_no_results) (simp_all add: c r)
  then show ?thesis
    using c r by (simp add: response_of_no_results_item)
qed

lemma handle_demo_sort:
  "\<exists>h e. handle_user_query demo_store ''cheapest flat'' 5 = Inr [header_item h, e] \<and>
      enrich_item demo_other demo_apartment = Inr e"
proof -
  have l: "get_unique_locations demo_store = [''Baner, Pune'']"
    "str_other demo_store = demo_other"
    by (simp_all add: demo_store_def)
  from enrich_demo_apartment obtain e where e: "enrich_item demo_other demo_apartment = Inr e"
    by blast
  have "handle_user_query demo_store ''cheapest flat'' 5 =
      Inr [header_item (header_text ''sort_by_price_asc''
             (extract_location_from_query ''cheapest flat'' [''Baner, Pune''])), e]"
    by (simp add: handle_user_query_def l classify_examples retrieve_demo_sort e
        bind_err_def Let_def header_text_nonempty)
  with e show ?thesis by blast
qed

text \<open>
  Claim C2, as stated, fails: the query below is served by a sort of the store, and
  both result items of its envelope, the header and the record, carry a
  \<open>similarity_score\<close>.
\<close>

theorem sort_results_carry_score_counterexample:
  "classify_user_query ''cheapest flat'' (get_unique_locations demo_store)
     = ''sort_by_price_asc'' \<and>
   result_scores (get_chat_response demo_store ''cheapest flat'')
     = [Some (PFloat 0), Some (PFloat 0)]"
proof -
  have l: "get_unique_locations demo_store = [''Baner, Pune'']"
    by (simp add: demo_store_def)
  have c: "classify_user_query ''cheapest flat'' (get_unique_locations demo_store)
      = ''sort_by_price_asc''"
    by (simp add: l classify_examples)
  from handle_demo_sort obtain h e where
    out: "handle_user_query demo_store ''cheapest flat'' 5 = Inr [header_item h, e]"
    by blast
  have "get_chat_response demo_store ''cheapest flat'' =
     Inr [(''status'', PStr ''success''),
          (''query'', PStr ''cheapest flat''),
          (''results'', PList (map PDict (map zero_scored [header_item h, e])))]"
    by (rule non_greeting_response [OF out]) (simp add: c)
  then have "result_scores (get_chat_response demo_store ''cheapest flat'')
      = [Some (PFloat 0), Some (PFloat 0)]"
    by (simp add: result_scores_def zero_scored_def)
  with c show ?thesis by simp
qed

theorem every_result_item_carries_score_witness:
  "\<exists>env results.
     get_chat_response demo_store ''cheapest flat'' = Inr env \<and>
     py_get env ''status'' PNone = PStr ''success'' \<and>
     map_of env ''results'' = Some (PList (map PDict results)) \<and>
     results \<noteq> [] \<and> list_all (\<lambda>r. has_key r ''similarity_score'') results"
proof -
  have l: "get_unique_locations demo_store = [''Baner, Pune'']"
    by (simp add: demo_store_def)
  from handle_demo_sort obtain h e where
    out: "handle_user_query demo_store ''cheapest flat'' 5 = Inr [header_item h, e]"
    by blast
  have r: "get_chat_response demo_store ''cheapest flat'' =
     Inr [(''status'', PStr ''success''),
          (''query'', PStr ''cheapest flat''),
          (''results'', PList (map PDict (map zero_scored [header_item h, e])))]"
    by (rule non_greeting_response [OF out]) (simp add: l classify_examples)
  have s: "py_get [(''status'', PStr ''success''),
          (''query'', PStr ''cheapest flat''),
          (''results'', PList (map PDict (map zero_scored [header_item h, e])))]
        ''status'' PNone = PStr ''success''"
    by (simp add: py_get_def)
  from every_result_item_carries_score [OF r s] r s show ?thesis
    by blast
qed

section \<open>The details of a formatted item\<close>

lemma create_demo_document: "create_document demo_other demo_apartment = Inr demo_document"
proof -
  have c: "city_of (PStr ''Baner, Pune'') = Inr ''pune''"
    by code_simp
  show ?thesis
    by (simp add: create_document_def demo_apartment_def demo_document_def py_get_def
        bind_err_def c Let_def)
qed

text \<open>
  The metadata that \<open>create_langchain_documents\<close> writes is well formed whenever the
  four key fields of the record (or their defaults) can be hashed.
\<close>

lemma create_document_well_formed:
  assumes "create_document other a = Inr doc"
    and "hashable (py_get a ''bedrooms'' (PStr ''?''))"
    and "hashable (py_get a ''location'' (PStr ''an unknown location''))"
    and "hashable (py_get a ''price'' (PStr ''a negotiable price''))"
    and "hashable (py_get a ''area_sqft'' (PStr ''unknown area''))"
  shows "well_formed_meta (metadata doc)"
proof -
  from create_document_metadata [OF assms(1)] obtain joined city where
    "metadata doc =
        [(''bedrooms'', py_get a ''bedrooms'' (PStr ''?'')),
         (''location'', py_get a ''location'' (PStr ''an unknown location'')),
         (''price'', py_get a ''price'' (PStr ''a negotiable price'')),
         (''area_sqft'', py_get a ''area_sqft'' (PStr ''unknown area'')),
         (''amenities'', PStr joined),
         (''city'', PStr city)]"
    by blast
  then show ?thesis
    using assms(2-5) by (simp add: well_formed_meta_def has_key_def py_get_def)
qed

lemma demo_document_well_formed: "well_formed_meta (metadata demo_document)"
  by (simp add: demo_document_def well_formed_meta_def has_key_def py_get_def)

lemma semantic_demo:
  "\<exists>meta. chromadb_semantic_search demo_store ''nice flat'' 5 = Inr [meta] \<and>
      semantic_item demo_other (metadata demo_document) (2469 / 20000) = Inr meta"
proof -
  from well_formed_semantic_item [OF demo_document_well_formed] obtain meta where
    m: "semantic_item demo_other (metadata demo_document) (2469 / 20000) = Inr meta"
    by blast
  from well_formed_dedup_key [OF demo_document_well_formed] obtain key where
    k: "dedup_key (metadata demo_document) = Inr key"
    by blast
  have "chromadb_semantic_search demo_store ''nice flat'' 5 = Inr [meta]"
    by (simp add: chromadb_semantic_search_def demo_store_def k m bind_err_def Let_def)
  with m show ?thesis by blast
qed

lemma enrich_semantic_demo:
  assumes "semantic_item demo_other (metadata demo_document) score = Inr meta"
  shows "\<exists>e. enrich_item demo_other meta = Inr e"
proof -
  from semantic_item_Inr [OF assms] obtain summary where
    "meta = AList.update ''summary'' (PStr summary)
      (AList.update ''similarity_score'' (PFloat (py_round score 4)) (metadata demo_document))"
    by blast
  then show ?thesis
    by (simp add: enrich_item_def amenities_text_def demo_document_def py_get_def has_key_def
        py_getitem_def bind_err_def Let_def)
qed

text \<open>
  Claim C3, as stated, fails on the semantic path: the record below has the amenities
  \<open>["Gym", "Parking"]\<close>, its document is what the index returns, and the details of the
  formatted item hold the one string \<open>"Gym, Parking"\<close>.
\<close>

theorem semantic_details_join_amenities_counterexample:
  "py_get demo_apartment ''amenities'' PNone = PList [PStr ''Gym'', PStr ''Parking''] \<and>
   create_document demo_other demo_apartment = Inr demo_document \<and>
   classify_user_query ''nice flat'' (get_unique_locations demo_store) = ''semantic_search'' \<and>
   details_of_items (handle_user_query demo_store ''nice flat'' 5) =
     [PNone,
      PDict [(''bedrooms'', PInt 2),
             (''location'', PStr ''Baner, Pune''),
             (''price'', PInt 25000),
             (''area_sqft'', PInt 900),
             (''amenities'', PStr ''Gym, Parking'')]]"
proof -
  have l: "get_unique_locations demo_store = [''Baner, Pune'']"
    "str_other demo_store = demo_other"
    by (simp_all add: demo_store_def)
  have a: "py_get demo_apartment ''amenities'' PNone = PList [PStr ''Gym'', PStr ''Parking'']"
    by (simp add: demo_apartment_def py_get_def)
  have c: "classify_user_query ''nice flat'' (get_unique_locations demo_store)
      = ''semantic_search''"
    by (simp add: l classify_examples)
  from semantic_demo obtain meta where
    s: "chromadb_semantic_search demo_store ''nice flat'' 5 = Inr [meta]"
    and m: "semantic_item demo_other (metadata demo_document) (2469 / 20000) = Inr meta"
    by blast
  from enrich_semantic_demo [OF m] obtain e where e: "enrich_item demo_other meta = Inr e"
    by blast
  have r: "retrieve demo_store ''semantic_search'' ''nice flat'' [''Baner, Pune''] 5
      = Inr [meta]"
    by (simp add: retrieve_def s)
  have h: "handle_user_query demo_store ''nice flat'' 5 =
      Inr [header_item (header_text ''semantic_search''
             (extract_location_from_query ''nice flat'' [''Baner, Pune''])), e]"
    by (simp add: handle_user_query_def l classify_examples r e bind_err_def Let_def
        header_text_nonempty)
  have d: "py_get e ''details'' PNone = PDict (item_details meta)"
    using enrich_item_shape [OF e] by (auto simp: py_get_def)
  have "item_details meta = item_details (metadata demo_document)"
    using m by (rule semantic_item_details)
  then have i: "item_details meta =
      [(''bedrooms'', PInt 2),
       (''location'', PStr ''Baner, Pune''),
       (''price'', PInt 25000),
       (''area_sqft'', PInt 900),
       (''amenities'', PStr ''Gym, Parking'')]"
    by (simp add: item_details_def demo_document_def py_get_def)
  have "details_of_items (handle_user_query demo_store ''nice flat'' 5) =
      [PNone, PDict (item_details meta)]"
    by (simp add: h details_of_items_def d) (simp add: header_item_def py_get_def)
  with a c i create_demo_document show ?thesis by simp
qed

text \<open>
  Claim C3, amended. The details of every formatted record item are the five fields of
  the retrieved item, unchanged (an absent field as \<open>None\<close>). On the sort and filter
  paths the retrieved item is the store's record. On the semantic path it is the
  metadata that \<open>create_langchain_documents\<close> wrote for the record: bedrooms, location,
  price and area are the record's fields (or the defaults written for absent ones), and
  amenities is the single string of the record's amenities joined with a comma and a
  space, not the sequence.
\<close>

theorem details_reflect_retrieved_item:
  "(handle_user_query c q k = Inr out \<and>
    classify_user_query q (get_unique_locations c) \<noteq> ''greeting'' \<and>
    retrieve c (classify_user_query q (get_unique_locations c)) q (get_unique_locations c) k
      = Inr rs \<and>
    rs \<noteq> [] \<longrightarrow>
      map (\<lambda>e. py_get e ''details'' PNone) (tl out) = map (\<lambda>r. PDict (item_details r)) rs) \<and>
   list_all (\<lambda>field. py_get (item_details r) field PNone = py_get r field PNone)
     [''bedrooms'', ''location'', ''price'', ''area_sqft'', ''amenities''] \<and>
   (create_document other a = Inr doc \<and>
    semantic_item other (metadata doc) score = Inr meta \<longrightarrow>
      (\<exists>joined.
         py_join '', '' (py_get a ''amenities'' (PList [])) = Inr joined \<and>
         item_details meta =
           [(''bedrooms'', py_get a ''bedrooms'' (PStr ''?'')),
            (''location'', py_get a ''location'' (PStr ''an unknown location'')),
            (''price'', py_get a ''price'' (PStr ''a negotiable price'')),
            (''area_sqft'', py_get a ''area_sqft'' (PStr ''unknown area'')),
            (''amenities'', PStr joined)]))"
proof (intro conjI impI)
  assume "handle_user_query c q k = Inr out \<and>
    classify_user_query q (get_unique_locations c) \<noteq> ''greeting'' \<and>
    retrieve c (classify_user_query q (get_unique_locations c)) q (get_unique_locations c) k
      = Inr rs \<and> rs \<noteq> []"
  then show "map (\<lambda>e. py_get e ''details'' PNone) (tl out) =
      map (\<lambda>r. PDict (item_details r)) rs"
    using handle_user_query_details by blast
next
  show "list_all (\<lambda>field. py_get (item_details r) field PNone = py_get r field PNone)
     [''bedrooms'', ''location'', ''price'', ''area_sqft'', ''amenities'']"
    by (simp add: item_details_def py_get_def)
next
  assume "create_document other a = Inr doc \<and>
    semantic_item other (metadata doc) score = Inr meta"
  then show "\<exists>joined.
         py_join '', '' (py_get a ''amenities'' (PList [])) = Inr joined \<and>
         item_details meta =
           [(''bedrooms'', py_get a ''bedrooms'' (PStr ''?'')),
            (''location'', py_get a ''location'' (PStr ''an unknown location'')),
            (''price'', py_get a ''price'' (PStr ''a negotiable price'')),
            (''area_sqft'', py_get a ''area_sqft'' (PStr ''unknown area'')),
            (''amenities'', PStr joined)]"
    using semantic_details_of_record by blast
qed

theorem details_reflect_retrieved_item_witness:
  "\<exists>out meta.
     handle_user_query demo_store ''cheapest flat'' 5 = Inr out \<and>
     classify_user_query ''cheapest flat'' (get_unique_locations demo_store) \<noteq> ''greeting'' \<and>
     retrieve demo_store (classify_user_query ''cheapest flat'' (get_unique_locations demo_store))
       ''cheapest flat'' (get_unique_locations demo_store) 5 = Inr [demo_apartment] \<and>
     map (\<lambda>e. py_get e ''details'' PNone) (tl out) = [PDict (item_details demo_apartment)] \<and>
     create_document demo_other demo_apartment = Inr demo_document \<and>
     semantic_item demo_other (metadata demo_document) (3 / 10) = Inr meta \<and>
     item_details meta =
       [(''bedrooms'', PInt 2),
        (''location'', PStr ''Baner, Pune''),
        (''price'', PInt 25000),
        (''area_sqft'', PInt 900),
        (''amenities'', PStr ''Gym, Parking'')]"
proof -
  have l: "get_unique_locations demo_store = [''Baner, Pune'']"
    by (simp add: demo_store_def)
  have c: "classify_user_query ''cheapest flat'' (get_unique_locations demo_store)
      \<noteq> ''greeting''"
    by (simp add: l classify_examples)
  have r: "retrieve demo_store
      (classify_user_query ''cheapest flat'' (get_unique_locations demo_store))
      ''cheapest flat'' (get_unique_locations demo_store) 5 = Inr [demo_apartment]"
    by (simp add: l classify_examples retrieve_demo_sort)
  from handle_demo_sort obtain h e where
    out: "handle_user_query demo_store ''cheapest flat'' 5 = Inr [header_item h, e]"
    by blast
  from well_formed_semantic_item [OF demo_document_well_formed] obtain meta where
    m: "semantic_item demo_other (metadata demo_document) (3 / 10) = Inr meta"
    by blast
  note t = details_reflect_retrieved_item
    [of demo_store "''cheapest flat''" 5 "[header_item h, e]" "[demo_apartment]"
        demo_apartment demo_other demo_apartment demo_document "3 / 10" meta]
  have d: "map (\<lambda>e. py_get e ''details'' PNone) (tl [header_item h, e])
      = [PDict (item_details demo_apartment)]"
    using t out c r by simp
  have j: "py_join '', '' (py_get demo_apartment ''amenities'' (PList []))
      = Inr ''Gym, Parking''"
    by (simp add: demo_apartment_def py_get_def)
  have i: "item_details meta =
       [(''bedrooms'', PInt 2),
        (''location'', PStr ''Baner, Pune''),
        (''price'', PInt 25000),
        (''area_sqft'', PInt 900),
        (''amenities'', PStr ''Gym, Parking'')]"
    using t create_demo_document m j by (simp add: demo_apartment_def py_get_def)
  show ?thesis
    apply (rule exI [of _ "[header_item h, e]"])
    apply (rule exI [of _ meta])
    apply (intro conjI)
          apply (rule out)
         apply (rule c)
        apply (rule r)
       apply (rule d)
      apply (rule create_demo_document)
     apply (rule m)
    apply (rule i)
    done
qed

end
